theory Spec2Isabelle
  imports Complex_Main
begin

section \<open>The constants module\<close>

text \<open>
  The constants of \<^verbatim>\<open>constants.py\<close>, in the order of the source. Python's floats are
  modelled as the real numbers they denote, \<^verbatim>\<open>math.pi\<close> as \<^term>\<open>pi\<close>; rounding of
  the floating-point arithmetic is outside the model.
\<close>

subsection \<open>Basic units\<close>

definition kInchesPerFoot :: real where
  "kInchesPerFoot = 12"

definition kCentimetersPerInch :: real where
  "kCentimetersPerInch = 2.54"

definition kCentimetersPerMeter :: real where
  "kCentimetersPerMeter = 100"

definition kMetersPerInch :: real where
  "kMetersPerInch = kCentimetersPerInch / kCentimetersPerMeter"

definition kMetersPerFoot :: real where
  "kMetersPerFoot = kMetersPerInch * kInchesPerFoot"

definition kRadiansPerRevolution :: real where
  "kRadiansPerRevolution = 2 * pi"

definition kDegeersPerRevolution :: real where
  "kDegeersPerRevolution = 360"

definition kRadiansPerDegree :: real where
  "kRadiansPerDegree = kRadiansPerRevolution / kDegeersPerRevolution"

subsection \<open>Robot physical parameters\<close>

text \<open>\<^verbatim>\<open>Translation2d(x, y)\<close> of the geometry library: a pair of coordinates in meters.\<close>

datatype Translation2d = Translation2d (tx: real) (ty: real)

definition kSwerveModuleCenterToRobotCenterWidth :: real where
  "kSwerveModuleCenterToRobotCenterWidth = 10.375 * kMetersPerInch"

definition kSwerveModuleCenterToRobotCenterLength :: real where
  "kSwerveModuleCenterToRobotCenterLength = 9.375 * kMetersPerInch"

text \<open>\<^verbatim>\<open>pow(pow(w, 2) + pow(l, 2), 0.5)\<close>: the outer power has a real exponent.\<close>

definition kSwerveModuleDistanceFromRobotCenter :: real where
  "kSwerveModuleDistanceFromRobotCenter =
     ((kSwerveModuleCenterToRobotCenterWidth)\<^sup>2
      + (kSwerveModuleCenterToRobotCenterLength)\<^sup>2) powr 0.5"

definition kFrontLeftWheelPosition :: Translation2d where
  "kFrontLeftWheelPosition =
     Translation2d kSwerveModuleCenterToRobotCenterLength
                   kSwerveModuleCenterToRobotCenterWidth"

definition kFrontRightWheelPosition :: Translation2d where
  "kFrontRightWheelPosition =
     Translation2d kSwerveModuleCenterToRobotCenterLength
                   (- kSwerveModuleCenterToRobotCenterWidth)"

definition kBackLeftWheelPosition :: Translation2d where
  "kBackLeftWheelPosition =
     Translation2d (- kSwerveModuleCenterToRobotCenterLength)
                   kSwerveModuleCenterToRobotCenterWidth"

definition kBackRightWheelPosition :: Translation2d where
  "kBackRightWheelPosition =
     Translation2d (- kSwerveModuleCenterToRobotCenterLength)
                   (- kSwerveModuleCenterToRobotCenterWidth)"

definition kWheelDiameter :: real where
  "kWheelDiameter = 4 * kMetersPerInch"

definition kWheelRadius :: real where
  "kWheelRadius = kWheelDiameter / 2"

definition kWheelCircumference :: real where
  "kWheelCircumference = kWheelRadius * 2 * pi"

definition kWheelDistancePerRevolution :: real where
  "kWheelDistancePerRevolution = kWheelCircumference"

definition kWheelDistancePerRadian :: real where
  "kWheelDistancePerRadian = kWheelDistancePerRevolution / kRadiansPerRevolution"

definition kDriveGearingRatio :: real where
  "kDriveGearingRatio = (50 / 14) * (16 / 28) * (45 / 15)"

definition kSteerGearingRatio :: real where
  "kSteerGearingRatio = 150 / 7"

text \<open>
  \<^verbatim>\<open>kMaxMotorAngularVelocity = DCMotor.krakenX60().freeSpeed\<close> comes from the motor
  library, which is not part of the sources: the constants derived from it take the free
  speed (radians / second) as a parameter \<open>freeSpeed\<close>.
\<close>

definition kMaxMotorAngularVelocity :: "real \<Rightarrow> real" where
  "kMaxMotorAngularVelocity freeSpeed = freeSpeed"

definition kMaxWheelAngularVelocity :: "real \<Rightarrow> real" where
  "kMaxWheelAngularVelocity freeSpeed =
     kMaxMotorAngularVelocity freeSpeed / kDriveGearingRatio"

definition kMaxWheelLinearVelocity :: "real \<Rightarrow> real" where
  "kMaxWheelLinearVelocity freeSpeed =
     kWheelDistancePerRadian * kMaxWheelAngularVelocity freeSpeed"

definition kMinWheelLinearVelocity :: real where
  "kMinWheelLinearVelocity = 0.002"

definition kMaxForwardLinearVelocity :: "real \<Rightarrow> real" where
  "kMaxForwardLinearVelocity freeSpeed = kMaxWheelLinearVelocity freeSpeed"

definition kMaxSidewaysLinearVelocity :: "real \<Rightarrow> real" where
  "kMaxSidewaysLinearVelocity freeSpeed = kMaxWheelLinearVelocity freeSpeed"

definition kMaxRotationAngularVelocity :: "real \<Rightarrow> real" where
  "kMaxRotationAngularVelocity freeSpeed =
     kMaxWheelLinearVelocity freeSpeed / kSwerveModuleDistanceFromRobotCenter"

subsection \<open>Drive tuning\<close>

text \<open>
  The source comments this constant: while translating and rotating, a bit of extra motion
  compensates for the moving reference frame.
\<close>

definition kDriveAngularVelocityCoeff :: real where
  "kDriveAngularVelocityCoeff = 0.04"

subsection \<open>Encoders\<close>

definition kCANcoderPulsesPerRevolution :: real where
  "kCANcoderPulsesPerRevolution = 4096"

definition kCANcoderPulsesPerRadian :: real where
  "kCANcoderPulsesPerRadian = kCANcoderPulsesPerRevolution / kRadiansPerRevolution"

definition kTalonEncoderPulsesPerRevolution :: real where
  "kTalonEncoderPulsesPerRevolution = 2048"

definition kTalonEncoderPulsesPerRadian :: real where
  "kTalonEncoderPulsesPerRadian = kTalonEncoderPulsesPerRevolution / kRadiansPerRevolution"

definition kDriveEncoderPulsesPerRevolution :: real where
  "kDriveEncoderPulsesPerRevolution = kTalonEncoderPulsesPerRevolution"

definition kDriveEncoderPulsesPerRadian :: real where
  "kDriveEncoderPulsesPerRadian = kDriveEncoderPulsesPerRevolution / kRadiansPerRevolution"

definition kDriveEncoderPulsesPerMeter :: real where
  "kDriveEncoderPulsesPerMeter = kDriveEncoderPulsesPerRadian / kWheelDistancePerRadian"

definition kWheelEncoderPulsesPerRevolution :: real where
  "kWheelEncoderPulsesPerRevolution = kDriveEncoderPulsesPerRevolution * kDriveGearingRatio"

definition kWheelEncoderPulsesPerRadian :: real where
  "kWheelEncoderPulsesPerRadian = kWheelEncoderPulsesPerRevolution / kRadiansPerRevolution"

definition kWheelEncoderPulsesPerMeter :: real where
  "kWheelEncoderPulsesPerMeter = kWheelEncoderPulsesPerRadian / kWheelDistancePerRadian"

definition kSteerEncoderPulsesPerRevolution :: real where
  "kSteerEncoderPulsesPerRevolution = kTalonEncoderPulsesPerRevolution"

definition kSteerEncoderPulsesPerRadian :: real where
  "kSteerEncoderPulsesPerRadian = kSteerEncoderPulsesPerRevolution / kRadiansPerRevolution"

definition kSwerveEncoderPulsesPerRevolution :: real where
  "kSwerveEncoderPulsesPerRevolution = kSteerEncoderPulsesPerRevolution * kSteerGearingRatio"

definition kSwerveEncoderPulsesPerRadian :: real where
  "kSwerveEncoderPulsesPerRadian = kSwerveEncoderPulsesPerRevolution / kRadiansPerRevolution"

subsection \<open>Absolute encoder offsets\<close>

text \<open>The docstring of each of the four gives its unit as rotations.\<close>

definition kFrontLeftAbsoluteEncoderOffset :: real where
  "kFrontLeftAbsoluteEncoderOffset = 256.113 / kRadiansPerDegree"

definition kFrontRightAbsoluteEncoderOffset :: real where
  "kFrontRightAbsoluteEncoderOffset = 125.420 / kDegeersPerRevolution"

definition kBackLeftAbsoluteEncoderOffset :: real where
  "kBackLeftAbsoluteEncoderOffset = 341.719 / kDegeersPerRevolution"

definition kBackRightAbsoluteEncoderOffset :: real where
  "kBackRightAbsoluteEncoderOffset = 331.260 / kDegeersPerRevolution"

section \<open>Module geometry\<close>

text \<open>The four module mount points, in the order front-left, front-right, back-left, back-right.\<close>

definition moduleMountPoints :: "Translation2d list" where
  "moduleMountPoints =
     [kFrontLeftWheelPosition, kFrontRightWheelPosition,
      kBackLeftWheelPosition, kBackRightWheelPosition]"

text \<open>
  Two mount-point vectors are colinear through the robot center when the line through both
  passes through the origin, that is, when their planar cross product vanishes.
\<close>

definition cross :: "Translation2d \<Rightarrow> Translation2d \<Rightarrow> real" where
  "cross p q = tx p * ty q - ty p * tx q"

definition colinearThroughCenter :: "Translation2d \<Rightarrow> Translation2d \<Rightarrow> bool" where
  "colinearThroughCenter p q \<longleftrightarrow> cross p q = 0"

section \<open>Unit conversion\<close>

text \<open>
  Modelled from the spec: the UnitConversion functions are not in the sources, only the scale
  factors are. A conversion is a linear scale by its factor (physical unit to native unit).
\<close>

definition convert :: "real \<Rightarrow> real \<Rightarrow> real" where
  "convert factor x = x * factor"

text \<open>
  Modelled from the spec: the inverse conversion of UnitConversion (native unit back to
  physical unit), absent from the sources, divides by the same factor.
\<close>

definition invert :: "real \<Rightarrow> real \<Rightarrow> real" where
  "invert factor p = p / factor"

section \<open>Swerve kinematics\<close>

text \<open>
  \<^verbatim>\<open>DriveSubsystem.CoordinateMode\<close>: the enumeration is declared in the drive subsystem,
  which is not in the sources; the two members are the ones the commands use.
\<close>

datatype CoordinateMode = RobotRelative | FieldRelative

text \<open>
  Modelled from the spec: the data model's ChassisVelocityCommand and ModuleState, declared in
  the absent drive subsystem.
\<close>

record ChassisVelocityCommand =
  cmdForward :: real
  cmdSideways :: real
  cmdRotation :: real
  cmdMode :: CoordinateMode

record ModuleState =
  speed :: real
  angle :: real

text \<open>
  Modelled from the spec: \<open>hypot\<close> and \<open>atan2\<close> of the kinematics formulas are the
  mathematical library's functions; \<open>atan2 y x\<close> is the angle of the vector \<open>(x, y)\<close> in
  \<open>(-pi, pi]\<close>, and 0 for the zero vector.
\<close>

definition hypot :: "real \<Rightarrow> real \<Rightarrow> real" where
  "hypot x y = sqrt (x\<^sup>2 + y\<^sup>2)"

definition atan2 :: "real \<Rightarrow> real \<Rightarrow> real" where
  "atan2 y x =
     (if 0 < x then arctan (y / x)
      else if x < 0 \<and> 0 \<le> y then arctan (y / x) + pi
      else if x < 0 \<and> y < 0 then arctan (y / x) - pi
      else if 0 < y then pi / 2
      else if y < 0 then - (pi / 2)
      else 0)"

text \<open>
  Modelled from the spec: SwerveKinematics.toModuleStates is not in the sources. For the
  module at mount point \<open>(x, y)\<close>: \<open>vx = forward - rotation * y\<close>,
  \<open>vy = sideways + rotation * x\<close>.
\<close>

definition moduleVelocity :: "ChassisVelocityCommand \<Rightarrow> Translation2d \<Rightarrow> real \<times> real" where
  "moduleVelocity cmd m =
     (cmdForward cmd - cmdRotation cmd * ty m, cmdSideways cmd + cmdRotation cmd * tx m)"

text \<open>
  Modelled from the spec: the per-module formula of the absent toModuleStates,
  \<open>speed = hypot(vx, vy)\<close> and \<open>angle = atan2(vy, vx)\<close>, for a command that is
  already in the robot frame. The coordinate mode, the compensation of the rotation and the
  degenerate case are in \<open>toModuleStates\<close> below.
\<close>

definition toModuleState :: "ChassisVelocityCommand \<Rightarrow> Translation2d \<Rightarrow> ModuleState" where
  "toModuleState cmd m =
     (let (vx, vy) = moduleVelocity cmd m
      in \<lparr>speed = hypot vx vy, angle = atan2 vy vx\<rparr>)"

text \<open>
  Modelled from the spec: the coordinate-mode handling of the absent toModuleStates. In
  FieldRelative mode the pair (forward, sideways) is rotated by the negative of the robot
  heading; RobotRelative passes through unchanged.
\<close>

definition rotateBy :: "real \<Rightarrow> real \<times> real \<Rightarrow> real \<times> real" where
  "rotateBy theta v =
     (fst v * cos theta - snd v * sin theta, fst v * sin theta + snd v * cos theta)"

definition robotFrame :: "real \<Rightarrow> ChassisVelocityCommand \<Rightarrow> ChassisVelocityCommand" where
  "robotFrame heading cmd =
     (case cmdMode cmd of
        RobotRelative \<Rightarrow> cmd
      | FieldRelative \<Rightarrow>
          (let v = rotateBy (- heading) (cmdForward cmd, cmdSideways cmd)
           in cmd\<lparr>cmdForward := fst v, cmdSideways := snd v\<rparr>))"

text \<open>
  Modelled from the spec: the additional correction of the absent toModuleStates. When both
  translation and rotation are commanded, the compensation coefficient is added to the
  rotation.
\<close>

definition compensate :: "ChassisVelocityCommand \<Rightarrow> ChassisVelocityCommand" where
  "compensate cmd =
     (if (cmdForward cmd \<noteq> 0 \<or> cmdSideways cmd \<noteq> 0) \<and> cmdRotation cmd \<noteq> 0
      then cmd\<lparr>cmdRotation := cmdRotation cmd + kDriveAngularVelocityCoeff\<rparr>
      else cmd)"

text \<open>
  Modelled from the spec: SwerveKinematics.toModuleStates, absent from the sources, for the
  four mount points in their fixed order. In the degenerate case, all four speeds below
  \<^const>\<open>kMinWheelLinearVelocity\<close>, the previously commanded angles are held and the
  speed is 0. The heading and the previously commanded angles are arguments.
\<close>

definition toModuleStates ::
  "real \<Rightarrow> real list \<Rightarrow> ChassisVelocityCommand \<Rightarrow> ModuleState list" where
  "toModuleStates heading previousAngles cmd =
     (let c = compensate (robotFrame heading cmd);
          states = map (toModuleState c) moduleMountPoints
      in if list_all (\<lambda>s. speed s < kMinWheelLinearVelocity) states
         then map (\<lambda>a. \<lparr>speed = 0, angle = a\<rparr>) previousAngles
         else states)"

text \<open>The scalar product of a module velocity with a mount-point radius vector.\<close>

definition dot :: "real \<times> real \<Rightarrow> Translation2d \<Rightarrow> real" where
  "dot v m = fst v * tx m + snd v * ty m"

text \<open>The pure-rotation command of the concrete scenario: 1.0 radians / second, no translation.\<close>

definition pureRotation :: ChassisVelocityCommand where
  "pureRotation =
     \<lparr>cmdForward = 0, cmdSideways = 0, cmdRotation = 1.0, cmdMode = RobotRelative\<rparr>"

section \<open>Module optimization\<close>

text \<open>
  Modelled from the spec: angles of a ModuleState are normalized to \<open>(-pi, pi]\<close>; the
  normalization is not in the sources. \<open>wrapAngle\<close> subtracts the multiple of \<open>2 * pi\<close>
  that brings an angle into that interval.
\<close>

definition wrapAngle :: "real \<Rightarrow> real" where
  "wrapAngle a = a - 2 * pi * of_int \<lceil>(a - pi) / (2 * pi)\<rceil>"

text \<open>
  Modelled from the spec: the angular distance from the current angle to the target angle,
  used by the absent SwerveModuleController.setTarget, is the magnitude of the wrapped
  difference (the shorter way round the circle).
\<close>

definition angularDistance :: "real \<Rightarrow> real \<Rightarrow> real" where
  "angularDistance currentAngle targetAngle = \<bar>wrapAngle (targetAngle - currentAngle)\<bar>"

text \<open>
  Modelled from the spec: step 1 of the absent SwerveModuleController.setTarget. If the
  angular distance exceeds \<open>pi / 2\<close>, the target speed changes sign and the target angle
  is rotated by \<open>pi\<close>; otherwise, also at exactly \<open>pi / 2\<close>, the target is left as it is.
\<close>

definition optimize :: "real \<Rightarrow> ModuleState \<Rightarrow> ModuleState" where
  "optimize currentAngle target =
     (if pi / 2 < angularDistance currentAngle (angle target)
      then \<lparr>speed = - speed target, angle = wrapAngle (angle target + pi)\<rparr>
      else target)"

section \<open>Drive coordinator\<close>

text \<open>
  Modelled from the spec: DriveCoordinator.drive is not in the sources. An input is clamped
  to its configured maximum magnitude; out-of-range values are clamped, not rejected.
\<close>

definition clamp :: "real \<Rightarrow> real \<Rightarrow> real" where
  "clamp limit v = max (- limit) (min limit v)"

text \<open>
  Modelled from the spec: the deadband of the absent DriveCoordinator.drive. An input whose
  absolute value is below the configured threshold is treated as exactly 0.
\<close>

definition deadband :: "real \<Rightarrow> real \<Rightarrow> real" where
  "deadband threshold v = (if \<bar>v\<bar> < threshold then 0 else v)"

text \<open>
  Modelled from the spec: the input conditioning of the absent DriveCoordinator.drive, the
  clamp against \<^const>\<open>kMaxForwardLinearVelocity\<close>, \<^const>\<open>kMaxSidewaysLinearVelocity\<close>
  and \<^const>\<open>kMaxRotationAngularVelocity\<close>, then the deadband. The deadband threshold is
  configurable and is an argument, as is the motor free speed.
\<close>

definition conditionInputs ::
  "real \<Rightarrow> real \<Rightarrow> ChassisVelocityCommand \<Rightarrow> ChassisVelocityCommand" where
  "conditionInputs freeSpeed threshold cmd =
     \<lparr>cmdForward =
        deadband threshold (clamp (kMaxForwardLinearVelocity freeSpeed) (cmdForward cmd)),
      cmdSideways =
        deadband threshold (clamp (kMaxSidewaysLinearVelocity freeSpeed) (cmdSideways cmd)),
      cmdRotation =
        deadband threshold (clamp (kMaxRotationAngularVelocity freeSpeed) (cmdRotation cmd)),
      cmdMode = cmdMode cmd\<rparr>"

text \<open>
  Modelled from the spec: the absent DriveCoordinator.drive conditions the inputs, delegates
  to toModuleStates and calls setTarget on the four modules in their fixed order; the
  result is the list of optimized targets, each optimized against the current angle of its
  module.
\<close>

definition drive ::
  "real \<Rightarrow> real \<Rightarrow> real \<Rightarrow> real list \<Rightarrow> real list \<Rightarrow> ChassisVelocityCommand
     \<Rightarrow> ModuleState list" where
  "drive freeSpeed threshold heading previousAngles currentAngles cmd =
     map2 optimize currentAngles
       (toModuleStates heading previousAngles (conditionInputs freeSpeed threshold cmd))"

section \<open>The drive commands\<close>

text \<open>
  The call that \<^verbatim>\<open>execute\<close> makes on the drive subsystem,
  \<^verbatim>\<open>arcadeDriveWithFactors(forward, sideways, rotation, mode)\<close>, as a value.
\<close>

datatype DriveCall =
  arcadeDriveWithFactors (callForward: real) (callSideways: real) (callRotation: real)
    (callMode: CoordinateMode)

text \<open>
  What the commands act on: the stored preferences, the log of preference keys read, and the
  log of calls received by the drive subsystem.
\<close>

record Robot =
  preferences :: "string \<rightharpoonup> real"
  preferenceReads :: "string list"
  driveCalls :: "DriveCall list"

text \<open>
  Modelled from the spec: the tunable scalar store (\<^verbatim>\<open>wpilib.Preferences\<close>) belongs to
  the framework, not to the sources. \<^verbatim>\<open>initFloat(key, value)\<close> stores the value only when
  the key is absent.
\<close>

definition Preferences_initFloat :: "string \<Rightarrow> real \<Rightarrow> Robot \<Rightarrow> Robot" where
  "Preferences_initFloat key value r =
     (if key \<in> dom (preferences r) then r
      else r\<lparr>preferences := (preferences r)(key \<mapsto> value)\<rparr>)"

text \<open>
  Modelled from the spec: \<^verbatim>\<open>getFloat(key, defaultValue)\<close> of the same store returns the
  stored value, or the default when the key is absent; each call is one read, recorded in
  the log.
\<close>

definition Preferences_getFloat :: "string \<Rightarrow> real \<Rightarrow> Robot \<Rightarrow> real \<times> Robot" where
  "Preferences_getFloat key defaultValue r =
     (case preferences r key of Some v \<Rightarrow> v | None \<Rightarrow> defaultValue,
      r\<lparr>preferenceReads := preferenceReads r @ [key]\<rparr>)"

text \<open>
  Modelled from the spec: the drive subsystem is not in the sources; the model records the
  call it receives.
\<close>

definition DriveSubsystem_arcadeDriveWithFactors ::
  "real \<Rightarrow> real \<Rightarrow> real \<Rightarrow> CoordinateMode \<Rightarrow> Robot \<Rightarrow> Robot" where
  "DriveSubsystem_arcadeDriveWithFactors f s w m r =
     r\<lparr>driveCalls := driveCalls r @ [arcadeDriveWithFactors f s w m]\<rparr>"

text \<open>
  \<^verbatim>\<open>class ArcadeDrive\<close>. The joystick inputs are callables without arguments; a callable
  is a function of the state \<open>'e\<close> of the operator's controls at the time of the call.
  The constructor's calls into the command framework (name, requirements) do not touch the
  preferences or the drive calls and are left out.
\<close>

record 'e ArcadeDrive =
  arcadeForward :: "'e \<Rightarrow> real"
  arcadeRotation :: "'e \<Rightarrow> real"

definition ArcadeDrive_init ::
  "('e \<Rightarrow> real) \<Rightarrow> ('e \<Rightarrow> real) \<Rightarrow> Robot \<Rightarrow> 'e ArcadeDrive \<times> Robot" where
  "ArcadeDrive_init forward rotation r =
     (\<lparr>arcadeForward = forward, arcadeRotation = rotation\<rparr>,
      Preferences_initFloat ''Robot Relative Sensitivity'' 0.2 r)"

definition ArcadeDrive_execute :: "'e ArcadeDrive \<Rightarrow> 'e \<Rightarrow> Robot \<Rightarrow> Robot" where
  "ArcadeDrive_execute self env r =
     (let f = arcadeForward self env;
          w = arcadeRotation self env;
          (sensitivity, r1) = Preferences_getFloat ''Robot Relative Sensitivity'' 0.2 r
      in DriveSubsystem_arcadeDriveWithFactors f 0 (w * sensitivity) RobotRelative r1)"

text \<open>
  \<^verbatim>\<open>class FieldRelativeDrive\<close>. Its \<^verbatim>\<open>execute\<close> calls \<^verbatim>\<open>getFloat\<close> with the key
  alone; the default of the omitted argument is 0.0.
\<close>

record 'e FieldRelativeDrive =
  fieldForward :: "'e \<Rightarrow> real"
  fieldSideways :: "'e \<Rightarrow> real"
  fieldRotation :: "'e \<Rightarrow> real"

definition FieldRelativeDrive_init ::
  "('e \<Rightarrow> real) \<Rightarrow> ('e \<Rightarrow> real) \<Rightarrow> ('e \<Rightarrow> real) \<Rightarrow> Robot
     \<Rightarrow> 'e FieldRelativeDrive \<times> Robot" where
  "FieldRelativeDrive_init forward sideways rotation r =
     (\<lparr>fieldForward = forward, fieldSideways = sideways, fieldRotation = rotation\<rparr>,
      Preferences_initFloat ''Robot Relative Sensitivity'' 0.4 r)"

definition FieldRelativeDrive_execute :: "'e FieldRelativeDrive \<Rightarrow> 'e \<Rightarrow> Robot \<Rightarrow> Robot" where
  "FieldRelativeDrive_execute self env r =
     (let f = fieldForward self env;
          s = fieldSideways self env;
          w = fieldRotation self env;
          (sensitivity, r1) = Preferences_getFloat ''Robot Relative Sensitivity'' 0.0 r
      in DriveSubsystem_arcadeDriveWithFactors f s (w * sensitivity) FieldRelative r1)"

text \<open>A robot with no stored preference, no read and no drive call yet.\<close>

definition robot0 :: Robot where
  "robot0 = \<lparr>preferences = Map.empty, preferenceReads = [], driveCalls = []\<rparr>"

section \<open>Properties of the constants\<close>

lemma kMetersPerInch_value: "kMetersPerInch = 0.0254"
  by (simp add: kMetersPerInch_def kCentimetersPerInch_def kCentimetersPerMeter_def)

lemma kRadiansPerDegree_value: "kRadiansPerDegree = pi / 180"
  by (simp add: kRadiansPerDegree_def kRadiansPerRevolution_def kDegeersPerRevolution_def)

text \<open>
  Claim C8. Each of the four absolute steer encoder offsets is its calibration reading in
  degrees divided by 360, a number of rotations in \<open>[0, 1)\<close>. The front-right, back-left
  and back-right constants are; the front-left constant divides its reading by
  \<^const>\<open>kRadiansPerDegree\<close> instead of \<^const>\<open>kDegeersPerRevolution\<close>, so it is
  \<open>256.113 * 180 / pi\<close>, which is above 11000 and differs from \<open>256.113 / 360\<close>.
\<close>

theorem encoder_offsets_front_left_not_rotations:
  "kFrontLeftAbsoluteEncoderOffset = 256.113 * 180 / pi
   \<and> kFrontLeftAbsoluteEncoderOffset \<noteq> 256.113 / 360
   \<and> 11000 < kFrontLeftAbsoluteEncoderOffset
   \<and> \<not> kFrontLeftAbsoluteEncoderOffset < 1
   \<and> kFrontRightAbsoluteEncoderOffset = 125.420 / 360
   \<and> kBackLeftAbsoluteEncoderOffset = 341.719 / 360
   \<and> kBackRightAbsoluteEncoderOffset = 331.260 / 360
   \<and> 0 \<le> kFrontRightAbsoluteEncoderOffset \<and> kFrontRightAbsoluteEncoderOffset < 1
   \<and> 0 \<le> kBackLeftAbsoluteEncoderOffset \<and> kBackLeftAbsoluteEncoderOffset < 1
   \<and> 0 \<le> kBackRightAbsoluteEncoderOffset \<and> kBackRightAbsoluteEncoderOffset < 1"
proof -
  have fl: "kFrontLeftAbsoluteEncoderOffset = 256.113 * 180 / pi"
    by (simp add: kFrontLeftAbsoluteEncoderOffset_def kRadiansPerDegree_value)
  have "11000 * pi < 256.113 * 180"
    using pi_less_4 by simp
  then have big: "11000 < kFrontLeftAbsoluteEncoderOffset"
    unfolding fl using pi_gt_zero by (simp add: pos_less_divide_eq)
  have rest:
    "kFrontRightAbsoluteEncoderOffset = 125.420 / 360"
    "kBackLeftAbsoluteEncoderOffset = 341.719 / 360"
    "kBackRightAbsoluteEncoderOffset = 331.260 / 360"
    by (simp_all add: kFrontRightAbsoluteEncoderOffset_def kBackLeftAbsoluteEncoderOffset_def
        kBackRightAbsoluteEncoderOffset_def kDegeersPerRevolution_def)
  from big have "kFrontLeftAbsoluteEncoderOffset \<noteq> 256.113 / 360"
    by simp
  moreover from big have "\<not> kFrontLeftAbsoluteEncoderOffset < 1"
    by simp
  ultimately show ?thesis
    using fl big rest by simp
qed

section \<open>Properties of the module geometry\<close>

lemma kSwerveModuleCenterToRobotCenterWidth_value:
  "kSwerveModuleCenterToRobotCenterWidth = 0.263525"
  by (simp add: kSwerveModuleCenterToRobotCenterWidth_def kMetersPerInch_value)

lemma kSwerveModuleCenterToRobotCenterLength_value:
  "kSwerveModuleCenterToRobotCenterLength = 0.238125"
  by (simp add: kSwerveModuleCenterToRobotCenterLength_def kMetersPerInch_value)

lemmas wheel_positions =
  kFrontLeftWheelPosition_def kFrontRightWheelPosition_def
  kBackLeftWheelPosition_def kBackRightWheelPosition_def
  kSwerveModuleCenterToRobotCenterWidth_value kSwerveModuleCenterToRobotCenterLength_value

lemma kFrontLeftWheelPosition_value:
  "kFrontLeftWheelPosition = Translation2d 0.238125 0.263525"
  by (simp add: wheel_positions)

text \<open>
  The mount geometry still determines the chassis motion: a command that leaves the two
  front modules at rest is the zero command.
\<close>

lemma kinematics_injective:
  assumes "moduleVelocity cmd kFrontLeftWheelPosition = (0, 0)"
    and "moduleVelocity cmd kFrontRightWheelPosition = (0, 0)"
  shows "cmdForward cmd = 0 \<and> cmdSideways cmd = 0 \<and> cmdRotation cmd = 0"
proof -
  from assms have a: "cmdForward cmd - cmdRotation cmd * 0.263525 = 0"
    and b: "cmdForward cmd + cmdRotation cmd * 0.263525 = 0"
    and c: "cmdSideways cmd + cmdRotation cmd * 0.238125 = 0"
    by (simp_all add: moduleVelocity_def wheel_positions)
  from a b have "cmdRotation cmd = 0" by simp
  with a c show ?thesis by simp
qed

text \<open>
  Claim C1, as stated, fails: the front-left and back-right mount points are each other's
  negation, so the line through them passes through the robot center.
\<close>

theorem diagonal_mount_points_colinear:
  "kFrontLeftWheelPosition \<noteq> kBackRightWheelPosition
   \<and> colinearThroughCenter kFrontLeftWheelPosition kBackRightWheelPosition"
  by (simp add: colinearThroughCenter_def cross_def wheel_positions)

text \<open>
  Claim C1, amended. The four mount points are pairwise distinct, and no two adjacent ones
  (front-left/front-right, front-left/back-left, front-right/back-right,
  back-left/back-right) are colinear through the robot center; the two diagonal pairs are.
\<close>

theorem mount_points_adjacent_not_colinear:
  "distinct moduleMountPoints
   \<and> \<not> colinearThroughCenter kFrontLeftWheelPosition kFrontRightWheelPosition
   \<and> \<not> colinearThroughCenter kFrontLeftWheelPosition kBackLeftWheelPosition
   \<and> \<not> colinearThroughCenter kFrontRightWheelPosition kBackRightWheelPosition
   \<and> \<not> colinearThroughCenter kBackLeftWheelPosition kBackRightWheelPosition
   \<and> colinearThroughCenter kFrontLeftWheelPosition kBackRightWheelPosition
   \<and> colinearThroughCenter kFrontRightWheelPosition kBackLeftWheelPosition"
  by (simp add: moduleMountPoints_def colinearThroughCenter_def cross_def wheel_positions)

section \<open>Encoder scale factors\<close>

lemma kWheelDistancePerRadian_value: "kWheelDistancePerRadian = 0.0508"
  by (simp add: kWheelDistancePerRadian_def kWheelDistancePerRevolution_def
      kWheelCircumference_def kWheelRadius_def kWheelDiameter_def kMetersPerInch_value
      kRadiansPerRevolution_def)

lemma kDriveGearingRatio_value: "kDriveGearingRatio = 300 / 49"
  by (simp add: kDriveGearingRatio_def)

lemma kDriveEncoderPulsesPerRadian_value: "kDriveEncoderPulsesPerRadian = 1024 / pi"
  by (simp add: kDriveEncoderPulsesPerRadian_def kDriveEncoderPulsesPerRevolution_def
      kTalonEncoderPulsesPerRevolution_def kRadiansPerRevolution_def)

lemma kDriveEncoderPulsesPerMeter_value: "kDriveEncoderPulsesPerMeter = 1024 / (0.0508 * pi)"
  by (simp add: kDriveEncoderPulsesPerMeter_def kDriveEncoderPulsesPerRadian_value
      kWheelDistancePerRadian_value)

lemma kWheelEncoderPulsesPerMeter_value:
  "kWheelEncoderPulsesPerMeter = 1024 * (300 / 49) / (0.0508 * pi)"
  by (simp add: kWheelEncoderPulsesPerMeter_def kWheelEncoderPulsesPerRadian_def
      kWheelEncoderPulsesPerRevolution_def kDriveEncoderPulsesPerRevolution_def
      kTalonEncoderPulsesPerRevolution_def kRadiansPerRevolution_def
      kWheelDistancePerRadian_value kDriveGearingRatio_value)

lemma kSteerEncoderPulsesPerRadian_value: "kSteerEncoderPulsesPerRadian = 1024 / pi"
  by (simp add: kSteerEncoderPulsesPerRadian_def kSteerEncoderPulsesPerRevolution_def
      kTalonEncoderPulsesPerRevolution_def kRadiansPerRevolution_def)

lemma kSwerveEncoderPulsesPerRadian_value:
  "kSwerveEncoderPulsesPerRadian = 1024 * (150 / 7) / pi"
  by (simp add: kSwerveEncoderPulsesPerRadian_def kSwerveEncoderPulsesPerRevolution_def
      kSteerEncoderPulsesPerRevolution_def kSteerGearingRatio_def
      kTalonEncoderPulsesPerRevolution_def kRadiansPerRevolution_def)

lemma factors_positive:
  "0 < kDriveEncoderPulsesPerRadian" "0 < kDriveEncoderPulsesPerMeter"
  "0 < kWheelEncoderPulsesPerMeter" "0 < kSteerEncoderPulsesPerRadian"
  "0 < kSwerveEncoderPulsesPerRadian"
  by (simp_all add: kDriveEncoderPulsesPerRadian_value kDriveEncoderPulsesPerMeter_value
      kWheelEncoderPulsesPerMeter_value kSteerEncoderPulsesPerRadian_value
      kSwerveEncoderPulsesPerRadian_value)

lemma invert_convert: "factor \<noteq> 0 \<Longrightarrow> invert factor (convert factor x) = x"
  by (simp add: invert_def convert_def)

lemma convert_invert: "factor \<noteq> 0 \<Longrightarrow> convert factor (invert factor p) = p"
  by (simp add: invert_def convert_def)

lemma convert_linear:
  "convert factor (a * x + b * y) = a * convert factor x + b * convert factor y"
  by (simp add: convert_def algebra_simps)

text \<open>
  Claim C4. The conversion factors are scale factors built from the encoder resolution, the
  gear ratios and the wheel radius. The drive pulses per meter are the drive pulses per
  radian divided by the meters per radian, a division by the nonzero wheel radius 0.0508;
  the wheel and swerve factors are the drive and steer factors times the gear ratios.
\<close>

theorem drive_pulses_per_meter_derivation:
  "kDriveEncoderPulsesPerMeter = kDriveEncoderPulsesPerRadian / kWheelDistancePerRadian
   \<and> kWheelDistancePerRadian = 0.0508
   \<and> kDriveEncoderPulsesPerMeter * kWheelDistancePerRadian = kDriveEncoderPulsesPerRadian
   \<and> kDriveEncoderPulsesPerRadian = 2048 / (2 * pi)
   \<and> kDriveEncoderPulsesPerMeter = 2048 / (2 * pi * 0.0508)
   \<and> kWheelEncoderPulsesPerMeter = kDriveEncoderPulsesPerMeter * kDriveGearingRatio
   \<and> kSteerEncoderPulsesPerRadian = 2048 / (2 * pi)
   \<and> kSwerveEncoderPulsesPerRadian = kSteerEncoderPulsesPerRadian * kSteerGearingRatio"
  by (simp add: kDriveEncoderPulsesPerRadian_value kDriveEncoderPulsesPerMeter_value
      kWheelEncoderPulsesPerMeter_value kSteerEncoderPulsesPerRadian_value
      kSwerveEncoderPulsesPerRadian_value kWheelDistancePerRadian_value
      kDriveGearingRatio_value kSteerGearingRatio_def)

text \<open>
  Claim C5. Each of the five drive and steer encoder scale factors is nonzero, and for every
  real \<open>x\<close> converting with a factor and converting back gives \<open>x\<close> again, in both
  directions. The statement is about the real numbers.
\<close>

theorem unit_conversions_invertible:
  "kDriveEncoderPulsesPerRadian \<noteq> 0
   \<and> kDriveEncoderPulsesPerMeter \<noteq> 0
   \<and> kWheelEncoderPulsesPerMeter \<noteq> 0
   \<and> kSteerEncoderPulsesPerRadian \<noteq> 0
   \<and> kSwerveEncoderPulsesPerRadian \<noteq> 0
   \<and> (\<forall>x. invert kDriveEncoderPulsesPerRadian (convert kDriveEncoderPulsesPerRadian x) = x)
   \<and> (\<forall>x. invert kDriveEncoderPulsesPerMeter (convert kDriveEncoderPulsesPerMeter x) = x)
   \<and> (\<forall>x. invert kWheelEncoderPulsesPerMeter (convert kWheelEncoderPulsesPerMeter x) = x)
   \<and> (\<forall>x. invert kSteerEncoderPulsesPerRadian (convert kSteerEncoderPulsesPerRadian x) = x)
   \<and> (\<forall>x. invert kSwerveEncoderPulsesPerRadian (convert kSwerveEncoderPulsesPerRadian x) = x)
   \<and> (\<forall>p. convert kDriveEncoderPulsesPerRadian (invert kDriveEncoderPulsesPerRadian p) = p)
   \<and> (\<forall>p. convert kDriveEncoderPulsesPerMeter (invert kDriveEncoderPulsesPerMeter p) = p)
   \<and> (\<forall>p. convert kWheelEncoderPulsesPerMeter (invert kWheelEncoderPulsesPerMeter p) = p)
   \<and> (\<forall>p. convert kSteerEncoderPulsesPerRadian (invert kSteerEncoderPulsesPerRadian p) = p)
   \<and> (\<forall>p. convert kSwerveEncoderPulsesPerRadian (invert kSwerveEncoderPulsesPerRadian p) = p)"
  using factors_positive by (simp add: invert_convert convert_invert)

section \<open>Kinematics of the front-left module\<close>

lemma kSwerveModuleDistanceFromRobotCenter_sqrt:
  "kSwerveModuleDistanceFromRobotCenter = sqrt ((0.238125)\<^sup>2 + (0.263525)\<^sup>2)"
proof -
  have "kSwerveModuleDistanceFromRobotCenter = ((0.263525::real)\<^sup>2 + (0.238125)\<^sup>2) powr (1/2)"
    by (simp add: kSwerveModuleDistanceFromRobotCenter_def
        kSwerveModuleCenterToRobotCenterWidth_value kSwerveModuleCenterToRobotCenterLength_value)
  also have "\<dots> = sqrt ((0.263525)\<^sup>2 + (0.238125)\<^sup>2)"
    by (rule powr_half_sqrt) simp
  finally show ?thesis by (simp add: add.commute)
qed

lemma sqrt_between:
  assumes "0 \<le> lo" "lo\<^sup>2 < s" "s < hi\<^sup>2" "0 \<le> hi"
  shows "lo < sqrt s \<and> sqrt s < hi"
proof -
  from assms(2) have "lo < sqrt s" by (rule real_less_rsqrt)
  moreover have "0 \<le> s" using assms(2) by (smt (verit) zero_le_power2)
  with assms(3,4) have "sqrt s < hi" by (intro real_less_lsqrt) auto
  ultimately show ?thesis ..
qed

lemma distance_bounds:
  "0.3545 < kSwerveModuleDistanceFromRobotCenter \<and> kSwerveModuleDistanceFromRobotCenter < 0.3555"
  unfolding kSwerveModuleDistanceFromRobotCenter_sqrt
  by (rule sqrt_between) (simp_all add: power2_eq_square)

lemma hypot_rounded_bounds:
  "0.3545 < hypot 0.238 0.263 \<and> hypot 0.238 0.263 < 0.3555"
  unfolding hypot_def
  by (rule sqrt_between) (simp_all add: power2_eq_square)

lemma arctan_diff_le:
  assumes "b \<le> a"
  shows "arctan a - arctan b \<le> a - b"
proof -
  have "b - arctan b \<le> a - arctan a"
  proof (rule DERIV_nonneg_imp_nondecreasing [OF assms, where f = "\<lambda>x. x - arctan x"])
    fix x :: real
    assume "b \<le> x" "x \<le> a"
    have d: "((\<lambda>x. x - arctan x) has_real_derivative (1 - inverse (1 + x\<^sup>2))) (at x)"
      by (auto intro!: derivative_eq_intros)
    have "0 \<le> 1 - inverse (1 + x\<^sup>2)"
      by (simp add: inverse_le_1_iff)
    with d show "\<exists>y. ((\<lambda>x. x - arctan x) has_real_derivative y) (at x) \<and> 0 \<le> y"
      by blast
  qed
  then show ?thesis by simp
qed

lemma pure_rotation_speed:
  "speed (toModuleState \<lparr>cmdForward = 0, cmdSideways = 0, cmdRotation = w, cmdMode = md\<rparr> (Translation2d x y))
     = \<bar>w\<bar> * hypot x y"
  by (simp add: toModuleState_def moduleVelocity_def hypot_def power_mult_distrib
      real_sqrt_mult flip: distrib_left)

lemma pure_rotation_angle:
  "angle (toModuleState \<lparr>cmdForward = 0, cmdSideways = 0, cmdRotation = 1, cmdMode = md\<rparr> (Translation2d x y))
     = atan2 x (- y)"
  by (simp add: toModuleState_def moduleVelocity_def)

lemma pure_rotation_perpendicular:
  "dot (moduleVelocity \<lparr>cmdForward = 0, cmdSideways = 0, cmdRotation = w, cmdMode = md\<rparr> m) m = 0"
  by (simp add: dot_def moduleVelocity_def)

lemma atan2_second_quadrant: "0 < x \<Longrightarrow> 0 < y \<Longrightarrow> atan2 x (- y) = pi - arctan (x / y)"
  by (simp add: atan2_def arctan_minus)

lemma atan2_first_quadrant: "0 < x \<Longrightarrow> atan2 y x = arctan (y / x)"
  by (simp add: atan2_def)

lemma quarter_turn:
  assumes "0 < x" "0 < y"
  shows "atan2 x (- y) = atan2 y x + pi / 2"
proof -
  have "arctan (x / y) = arctan (1 / (y / x))" by simp
  also have "\<dots> = sgn (y / x) * pi / 2 - arctan (y / x)"
    using assms by (intro arctan_inverse) simp
  also have "\<dots> = pi / 2 - arctan (y / x)" using assms by simp
  finally show ?thesis
    using assms by (simp add: atan2_second_quadrant atan2_first_quadrant)
qed

lemma angle_close:
  "\<bar>atan2 0.238125 (- 0.263525) - atan2 0.238 (- 0.263)\<bar> < 0.002"
proof -
  have le: "(0.238125 / 0.263525 :: real) \<le> 0.238 / 0.263" by simp
  have "arctan (0.238 / 0.263) - arctan (0.238125 / 0.263525) \<le> 0.238 / 0.263 - 0.238125 / 0.263525"
    by (rule arctan_diff_le [OF le])
  moreover have "(0.238 / 0.263 - 0.238125 / 0.263525 :: real) < 0.002" by simp
  moreover have "arctan (0.238125 / 0.263525) \<le> arctan (0.238 / 0.263)"
    using le by (simp add: arctan_le_iff del: divide_le_eq_numeral1 le_divide_eq_numeral1)
  ultimately show ?thesis
    by (simp add: atan2_second_quadrant)
qed

text \<open>
  Claim C3. The front-left mount point is \<open>(9.375, 10.375)\<close> inches, that is
  \<open>(0.238125, 0.263525)\<close> meters, within a millimeter of \<open>(0.238, 0.263)\<close>. For the
  pure rotation of 1.0 radians / second the module there gets the speed
  \<open>rotation * hypot x y\<close>, which is \<^const>\<open>kSwerveModuleDistanceFromRobotCenter\<close> and
  within 0.0005 of 0.355; its angle is \<open>atan2 x (- y)\<close>, within 0.002 radians of
  \<open>atan2 0.238 (- 0.263)\<close>, a quarter turn ahead of the radius vector, and its velocity is
  perpendicular to the radius vector. At the rounded mount point \<open>(0.238, 0.263)\<close> itself
  the speed is \<open>hypot 0.238 0.263\<close>, within 0.0005 of 0.355, and the angle is
  \<open>atan2 0.238 (- 0.263)\<close>.
\<close>

theorem front_left_pure_rotation_scenario:
  "kFrontLeftWheelPosition = Translation2d (9.375 * 0.0254) (10.375 * 0.0254)
   \<and> kFrontLeftWheelPosition = Translation2d 0.238125 0.263525
   \<and> \<bar>tx kFrontLeftWheelPosition - 0.238\<bar> < 0.001
   \<and> \<bar>ty kFrontLeftWheelPosition - 0.263\<bar> < 0.001
   \<and> speed (toModuleState pureRotation kFrontLeftWheelPosition)
       = cmdRotation pureRotation * hypot (tx kFrontLeftWheelPosition) (ty kFrontLeftWheelPosition)
   \<and> speed (toModuleState pureRotation kFrontLeftWheelPosition)
       = kSwerveModuleDistanceFromRobotCenter
   \<and> \<bar>kSwerveModuleDistanceFromRobotCenter - 0.355\<bar> < 0.0005
   \<and> angle (toModuleState pureRotation kFrontLeftWheelPosition)
       = atan2 (tx kFrontLeftWheelPosition) (- ty kFrontLeftWheelPosition)
   \<and> \<bar>angle (toModuleState pureRotation kFrontLeftWheelPosition) - atan2 0.238 (- 0.263)\<bar> < 0.002
   \<and> dot (moduleVelocity pureRotation kFrontLeftWheelPosition) kFrontLeftWheelPosition = 0
   \<and> angle (toModuleState pureRotation kFrontLeftWheelPosition)
       = atan2 (ty kFrontLeftWheelPosition) (tx kFrontLeftWheelPosition) + pi / 2
   \<and> speed (toModuleState pureRotation (Translation2d 0.238 0.263))
       = cmdRotation pureRotation * hypot 0.238 0.263
   \<and> \<bar>speed (toModuleState pureRotation (Translation2d 0.238 0.263)) - 0.355\<bar> < 0.0005
   \<and> angle (toModuleState pureRotation (Translation2d 0.238 0.263)) = atan2 0.238 (- 0.263)
   \<and> dot (moduleVelocity pureRotation (Translation2d 0.238 0.263)) (Translation2d 0.238 0.263) = 0"
proof -
  have s: "speed (toModuleState pureRotation (Translation2d x y)) = hypot x y" for x y
    unfolding pureRotation_def by (simp add: pure_rotation_speed)
  have a: "angle (toModuleState pureRotation (Translation2d x y)) = atan2 x (- y)" for x y
    unfolding pureRotation_def by (simp add: pure_rotation_angle)
  have p: "dot (moduleVelocity pureRotation m) m = 0" for m
    unfolding pureRotation_def by (rule pure_rotation_perpendicular)
  have r: "cmdRotation pureRotation = 1" by (simp add: pureRotation_def)
  have d: "kSwerveModuleDistanceFromRobotCenter = hypot 0.238125 0.263525"
    by (simp add: kSwerveModuleDistanceFromRobotCenter_sqrt hypot_def)
  have q: "atan2 0.238125 (- 0.263525) = atan2 0.263525 0.238125 + pi / 2"
    by (rule quarter_turn) simp_all
  have b1: "\<bar>kSwerveModuleDistanceFromRobotCenter - 0.355\<bar> < 0.0005"
    using distance_bounds unfolding abs_less_iff by simp
  have b2: "\<bar>hypot 0.238 0.263 - 0.355\<bar> < 0.0005"
    using hypot_rounded_bounds unfolding abs_less_iff by simp
  show ?thesis
    unfolding kFrontLeftWheelPosition_value
    using angle_close b1 b2 q by (simp add: s a p r d)
qed

section \<open>Properties of the module optimization\<close>

lemma wrapAngle_range: "- pi < wrapAngle a \<and> wrapAngle a \<le> pi"
proof -
  define k where "k = \<lceil>(a - pi) / (2 * pi)\<rceil>"
  have "(a - pi) / (2 * pi) \<le> of_int k" and "of_int k - 1 < (a - pi) / (2 * pi)"
    unfolding k_def by linarith+
  then have "a - pi \<le> of_int k * (2 * pi)" and "(of_int k - 1) * (2 * pi) < a - pi"
    using pi_gt_zero by (simp_all add: pos_divide_le_eq pos_less_divide_eq)
  then show ?thesis
    unfolding wrapAngle_def k_def [symmetric] by (simp add: algebra_simps)
qed

lemma wrapAngle_unique:
  assumes "- pi < b" "b \<le> pi"
  shows "wrapAngle (b + 2 * pi * of_int n) = b"
proof -
  have "(b + 2 * pi * of_int n - pi) / (2 * pi) = (b - pi) / (2 * pi) + of_int n"
    using pi_gt_zero by (simp add: field_simps)
  moreover have "\<lceil>(b - pi) / (2 * pi)\<rceil> = 0"
  proof -
    have "(b - pi) / (2 * pi) \<le> 0"
      using assms pi_gt_zero by (simp add: divide_le_0_iff)
    moreover have "- 1 < (b - pi) / (2 * pi)"
      using assms pi_gt_zero by (simp add: pos_less_divide_eq)
    ultimately show ?thesis by (simp add: ceiling_eq_iff)
  qed
  ultimately show ?thesis
    by (simp add: wrapAngle_def)
qed

lemma wrapAngle_id: "- pi < a \<Longrightarrow> a \<le> pi \<Longrightarrow> wrapAngle a = a"
  using wrapAngle_unique [of a 0] by simp

lemma wrapAngle_decompose: "\<exists>n. a = wrapAngle a + 2 * pi * of_int n"
  unfolding wrapAngle_def by (intro exI [of _ "\<lceil>(a - pi) / (2 * pi)\<rceil>"]) simp

lemma wrapAngle_periodic: "wrapAngle (a + 2 * pi * of_int n) = wrapAngle a"
proof -
  obtain m where m: "a = wrapAngle a + 2 * pi * of_int m"
    using wrapAngle_decompose by blast
  have "a + 2 * pi * of_int n = wrapAngle a + 2 * pi * of_int (m + n)"
    using m by (simp add: algebra_simps)
  then show ?thesis
    using wrapAngle_unique [of "wrapAngle a" "m + n"] wrapAngle_range [of a] by simp
qed

lemma wrapAngle_shift: "wrapAngle (wrapAngle a + d) = wrapAngle (a + d)"
proof -
  define k where "k = \<lceil>(a - pi) / (2 * pi)\<rceil>"
  have "wrapAngle a + d = (a + d) + 2 * pi * of_int (- k)"
    by (simp add: wrapAngle_def k_def)
  then have "wrapAngle (wrapAngle a + d) = wrapAngle ((a + d) + 2 * pi * of_int (- k))"
    by (rule arg_cong)
  then show ?thesis
    by (simp only: wrapAngle_periodic)
qed

lemma wrapAngle_cos_sin: "cos (wrapAngle a) = cos a \<and> sin (wrapAngle a) = sin a"
proof -
  define k where "k = \<lceil>(a - pi) / (2 * pi)\<rceil>"
  have w: "wrapAngle a = a - 2 * pi * of_int k"
    by (simp add: wrapAngle_def k_def)
  have "cos (2 * pi * of_int k) = 1" and "sin (2 * pi * of_int k) = 0"
    by (simp_all add: cos_int_2pin sin_int_2pin)
  then show ?thesis
    unfolding w by (simp add: cos_diff sin_diff)
qed

lemma wrapAngle_half_turn:
  "wrapAngle (a + pi) = (if wrapAngle a \<le> 0 then wrapAngle a + pi else wrapAngle a - pi)"
proof -
  have "wrapAngle (a + pi) = wrapAngle (wrapAngle a + pi)"
    by (simp add: wrapAngle_shift)
  also have "\<dots> = (if wrapAngle a \<le> 0 then wrapAngle a + pi else wrapAngle a - pi)"
  proof (cases "wrapAngle a \<le> 0")
    case True
    then show ?thesis
      using wrapAngle_range [of a] by (simp add: wrapAngle_id)
  next
    case False
    have "wrapAngle (wrapAngle a - pi + 2 * pi * of_int 1) = wrapAngle a - pi"
      using False wrapAngle_range [of a] by (intro wrapAngle_unique) simp_all
    with False show ?thesis by (simp add: algebra_simps)
  qed
  finally show ?thesis .
qed

lemma abs_wrapAngle_half_turn: "\<bar>wrapAngle (a + pi)\<bar> = pi - \<bar>wrapAngle a\<bar>"
  using wrapAngle_range [of a] by (simp add: wrapAngle_half_turn)

lemma angularDistance_half_turn:
  "angularDistance c (wrapAngle (t + pi)) = pi - angularDistance c t"
proof -
  have "wrapAngle (wrapAngle (t + pi) - c) = wrapAngle (t - c + pi)"
    using wrapAngle_shift [of "t + pi" "- c"] by (simp add: algebra_simps)
  then show ?thesis
    by (simp add: angularDistance_def abs_wrapAngle_half_turn)
qed

lemma angularDistance_range: "0 \<le> angularDistance c t \<and> angularDistance c t \<le> pi"
  using wrapAngle_range [of "t - c"] by (simp add: angularDistance_def abs_le_iff)

lemma angularDistance_0_pi: "angularDistance 0 pi = pi"
  by (simp add: angularDistance_def wrapAngle_id)

lemma angularDistance_pi_0: "angularDistance pi 0 = pi"
  using wrapAngle_unique [of pi "- 1"] by (simp add: angularDistance_def)

lemma angularDistance_0_0: "angularDistance 0 0 = 0"
  by (simp add: angularDistance_def wrapAngle_id)

lemma optimize_speed:
  "speed (optimize c t) = (if pi / 2 < angularDistance c (angle t) then - speed t else speed t)"
  by (simp add: optimize_def)

text \<open>
  Claim C2. For every current angle and target, the optimized target is at an angular
  distance of at most \<open>pi / 2\<close> from the current angle. At a distance of exactly
  \<open>pi / 2\<close> (and below) the target is returned unchanged; above \<open>pi / 2\<close> the speed
  changes sign and the angle is rotated by \<open>pi\<close>: it is the normalized \<open>angle + pi\<close>,
  the opposite direction.
\<close>

theorem optimize_within_quarter_turn:
  "angularDistance c (angle (optimize c t)) \<le> pi / 2
   \<and> (angularDistance c (angle t) = pi / 2 \<longrightarrow> optimize c t = t)
   \<and> (pi / 2 < angularDistance c (angle t) \<longrightarrow>
        speed (optimize c t) = - speed t
        \<and> angle (optimize c t) = wrapAngle (angle t + pi)
        \<and> cos (angle (optimize c t)) = - cos (angle t)
        \<and> sin (angle (optimize c t)) = - sin (angle t))
   \<and> (angularDistance c (angle t) \<le> pi / 2 \<longrightarrow> optimize c t = t)"
  by (simp add: optimize_def angularDistance_half_turn wrapAngle_cos_sin)

text \<open>
  The theorem at a target a quarter turn away (not flipped) and at a target half a turn away
  (flipped).
\<close>

theorem optimize_within_quarter_turn_witness:
  "angularDistance 0 (angle \<lparr>speed = 1, angle = pi / 2\<rparr>) = pi / 2
   \<and> optimize 0 \<lparr>speed = 1, angle = pi / 2\<rparr> = \<lparr>speed = 1, angle = pi / 2\<rparr>
   \<and> pi / 2 < angularDistance 0 (angle \<lparr>speed = 1, angle = pi\<rparr>)
   \<and> speed (optimize 0 \<lparr>speed = 1, angle = pi\<rparr>) = - 1
   \<and> angle (optimize 0 \<lparr>speed = 1, angle = pi\<rparr>) = 0
   \<and> angularDistance 0 (angle (optimize 0 \<lparr>speed = 1, angle = pi\<rparr>)) \<le> pi / 2"
proof -
  have h1: "angularDistance 0 (angle \<lparr>speed = 1, angle = pi / 2\<rparr>) = pi / 2"
    by (simp add: angularDistance_def wrapAngle_id)
  have h2: "pi / 2 < angularDistance 0 (angle \<lparr>speed = 1, angle = pi\<rparr>)"
    by (simp add: angularDistance_def wrapAngle_id)
  have w: "wrapAngle (pi + pi) = 0"
    using wrapAngle_unique [of 0 1] by simp
  have h3: "angularDistance 0 0 = 0"
    by (simp add: angularDistance_def wrapAngle_id)
  show ?thesis
    using h1 h2 h3 w optimize_within_quarter_turn [of 0 "\<lparr>speed = 1, angle = pi / 2\<rparr>"] optimize_within_quarter_turn [of 0 "\<lparr>speed = 1, angle = pi\<rparr>"]
    by simp
qed

section \<open>Speed of an optimized target\<close>

lemma kMaxWheelLinearVelocity_value:
  "kMaxWheelLinearVelocity freeSpeed = 0.0508 * (freeSpeed / (300 / 49))"
  by (simp add: kMaxWheelLinearVelocity_def kMaxWheelAngularVelocity_def
      kMaxMotorAngularVelocity_def kWheelDistancePerRadian_value kDriveGearingRatio_value)

lemma hypot_nonneg: "0 \<le> hypot x y"
  by (simp add: hypot_def)

lemma toModuleState_speed:
  "speed (toModuleState cmd m) = hypot (fst (moduleVelocity cmd m)) (snd (moduleVelocity cmd m))"
  by (simp add: toModuleState_def split_beta)

lemma toModuleState_angle:
  "angle (toModuleState cmd m) = atan2 (snd (moduleVelocity cmd m)) (fst (moduleVelocity cmd m))"
  by (simp add: toModuleState_def split_beta)

lemma toModuleState_speed_nonneg: "0 \<le> speed (toModuleState cmd m)"
  by (simp add: toModuleState_speed hypot_nonneg)

lemma backward_state:
  "toModuleState \<lparr>cmdForward = - 1, cmdSideways = 0, cmdRotation = 0, cmdMode = RobotRelative\<rparr> m
     = \<lparr>speed = 1, angle = pi\<rparr>"
  by (simp add: toModuleState_def moduleVelocity_def hypot_def atan2_def)

lemma forward_state:
  "toModuleState \<lparr>cmdForward = 1, cmdSideways = 0, cmdRotation = 0, cmdMode = RobotRelative\<rparr> m
     = \<lparr>speed = 1, angle = 0\<rparr>"
  by (simp add: toModuleState_def moduleVelocity_def hypot_def atan2_def)

lemma diagonal_speed:
  "0 \<le> v \<Longrightarrow>
   speed (toModuleState \<lparr>cmdForward = v, cmdSideways = v, cmdRotation = 0, cmdMode = md\<rparr> m)
     = sqrt 2 * v"
  by (simp add: toModuleState_def moduleVelocity_def hypot_def real_sqrt_mult
      flip: mult_2)

lemma kMax_200pi_pos: "1 < kMaxWheelLinearVelocity (200 * pi)"
proof -
  have "kMaxWheelLinearVelocity (200 * pi) = (0.0508 * 200 * 49 / 300) * pi"
    by (simp add: kMaxWheelLinearVelocity_value)
  moreover have "(1::real) < (0.0508 * 200 * 49 / 300) * 2" by simp
  moreover have "(0.0508 * 200 * 49 / 300) * 2 \<le> (0.0508 * 200 * 49 / 300) * pi"
    using pi_ge_two by simp
  ultimately show ?thesis by linarith
qed

lemma hypot_triangle: "hypot (a + c) (b + d) \<le> hypot a b + hypot c d"
  unfolding hypot_def by (rule real_sqrt_sum_squares_triangle_ineq)

lemma rotation_preserves_squares:
  "(x * c - y * s)\<^sup>2 + (x * s + y * c)\<^sup>2 = (x\<^sup>2 + y\<^sup>2) * (s\<^sup>2 + c\<^sup>2)"
  for x y s c :: real
  by (simp add: power2_eq_square algebra_simps)

lemma hypot_rotateBy: "hypot (fst (rotateBy th v)) (snd (rotateBy th v)) = hypot (fst v) (snd v)"
  by (simp add: hypot_def rotateBy_def rotation_preserves_squares)

lemma hypot_le_sqrt2:
  assumes "\<bar>a\<bar> \<le> K" "\<bar>b\<bar> \<le> K"
  shows "hypot a b \<le> sqrt 2 * K"
proof -
  have K: "0 \<le> K" using assms(1) by linarith
  have "a\<^sup>2 \<le> K\<^sup>2" "b\<^sup>2 \<le> K\<^sup>2"
    using assms by (simp_all add: abs_le_square_iff [symmetric] K)
  then have "a\<^sup>2 + b\<^sup>2 \<le> 2 * K\<^sup>2" by linarith
  then have "sqrt (a\<^sup>2 + b\<^sup>2) \<le> sqrt (2 * K\<^sup>2)"
    by (rule real_sqrt_le_mono)
  also have "\<dots> = sqrt 2 * K"
    using K by (simp add: real_sqrt_mult)
  finally show ?thesis by (simp add: hypot_def)
qed

lemma hypot_scale: "hypot (- (w * y)) (w * x) = \<bar>w\<bar> * hypot x y"
proof -
  have "(w * y)\<^sup>2 + (w * x)\<^sup>2 = w\<^sup>2 * (x\<^sup>2 + y\<^sup>2)"
    by (simp add: power2_eq_square algebra_simps)
  then show ?thesis
    by (simp add: hypot_def real_sqrt_mult)
qed

lemma hypot_zero_right: "hypot a 0 = \<bar>a\<bar>"
  by (simp add: hypot_def)

lemma mount_radius:
  assumes "m \<in> set moduleMountPoints"
  shows "hypot (tx m) (ty m) = kSwerveModuleDistanceFromRobotCenter"
proof -
  from assms have "(tx m)\<^sup>2 + (ty m)\<^sup>2 = (0.238125)\<^sup>2 + (0.263525)\<^sup>2"
    by (auto simp add: moduleMountPoints_def wheel_positions)
  then show ?thesis
    by (simp add: hypot_def kSwerveModuleDistanceFromRobotCenter_sqrt)
qed

lemma distance_pos: "0 < kSwerveModuleDistanceFromRobotCenter"
  using distance_bounds by simp

lemma clamp_abs: "0 \<le> limit \<Longrightarrow> \<bar>clamp limit v\<bar> \<le> limit"
  by (simp add: clamp_def abs_le_iff min_def max_def)

lemma clamp_zero: "0 \<le> limit \<Longrightarrow> clamp limit 0 = 0"
  by (simp add: clamp_def)

lemma deadband_abs: "\<bar>deadband threshold v\<bar> \<le> \<bar>v\<bar>"
  by (simp add: deadband_def)

lemma deadband_zero: "deadband threshold 0 = 0"
  by (simp add: deadband_def)

lemma kMax_nonneg: "0 \<le> freeSpeed \<Longrightarrow> 0 \<le> kMaxWheelLinearVelocity freeSpeed"
  by (simp add: kMaxWheelLinearVelocity_value)

lemma module_speed_le:
  assumes m: "m \<in> set moduleMountPoints"
  shows "speed (toModuleState c m)
     \<le> hypot (cmdForward c) (cmdSideways c)
        + \<bar>cmdRotation c\<bar> * kSwerveModuleDistanceFromRobotCenter"
proof -
  have "speed (toModuleState c m)
      = hypot (cmdForward c + - (cmdRotation c * ty m)) (cmdSideways c + cmdRotation c * tx m)"
    by (simp add: toModuleState_speed moduleVelocity_def)
  also have "\<dots> \<le> hypot (cmdForward c) (cmdSideways c)
        + hypot (- (cmdRotation c * ty m)) (cmdRotation c * tx m)"
    by (rule hypot_triangle)
  also have "hypot (- (cmdRotation c * ty m)) (cmdRotation c * tx m)
      = \<bar>cmdRotation c\<bar> * kSwerveModuleDistanceFromRobotCenter"
    by (simp add: hypot_scale mount_radius [OF m])
  finally show ?thesis .
qed

lemma robotFrame_hypot:
  "hypot (cmdForward (robotFrame h c)) (cmdSideways (robotFrame h c))
     = hypot (cmdForward c) (cmdSideways c)"
  using hypot_rotateBy [of "- h" "(cmdForward c, cmdSideways c)"]
  by (cases "cmdMode c") (simp_all add: robotFrame_def Let_def)

lemma robotFrame_rotation: "cmdRotation (robotFrame h c) = cmdRotation c"
  by (cases "cmdMode c") (simp_all add: robotFrame_def Let_def)

lemma compensate_translation:
  "cmdForward (compensate c) = cmdForward c \<and> cmdSideways (compensate c) = cmdSideways c"
  by (simp add: compensate_def)

lemma compensate_rotation_abs:
  "\<bar>cmdRotation (compensate c)\<bar> \<le> \<bar>cmdRotation c\<bar> + kDriveAngularVelocityCoeff"
  using abs_triangle_ineq [of "cmdRotation c" kDriveAngularVelocityCoeff]
  by (simp add: compensate_def kDriveAngularVelocityCoeff_def)

lemma compensate_no_rotation: "cmdRotation c = 0 \<Longrightarrow> compensate c = c"
  by (simp add: compensate_def)

lemma kMaxRotation_nonneg: "0 \<le> freeSpeed \<Longrightarrow> 0 \<le> kMaxRotationAngularVelocity freeSpeed"
  using distance_pos by (simp add: kMaxRotationAngularVelocity_def kMax_nonneg)

lemma conditioned_translation:
  assumes "0 \<le> freeSpeed"
  shows "\<bar>cmdForward (conditionInputs freeSpeed th cmd)\<bar> \<le> kMaxWheelLinearVelocity freeSpeed"
    and "\<bar>cmdSideways (conditionInputs freeSpeed th cmd)\<bar> \<le> kMaxWheelLinearVelocity freeSpeed"
proof -
  have k: "0 \<le> kMaxWheelLinearVelocity freeSpeed"
    using assms by (rule kMax_nonneg)
  have "\<bar>deadband th (clamp (kMaxWheelLinearVelocity freeSpeed) v)\<bar>
      \<le> kMaxWheelLinearVelocity freeSpeed" for v
    using deadband_abs [of th "clamp (kMaxWheelLinearVelocity freeSpeed) v"]
      clamp_abs [OF k, of v] by linarith
  then show "\<bar>cmdForward (conditionInputs freeSpeed th cmd)\<bar> \<le> kMaxWheelLinearVelocity freeSpeed"
    and "\<bar>cmdSideways (conditionInputs freeSpeed th cmd)\<bar> \<le> kMaxWheelLinearVelocity freeSpeed"
    by (simp_all add: conditionInputs_def kMaxForwardLinearVelocity_def
        kMaxSidewaysLinearVelocity_def)
qed

lemma conditioned_rotation:
  assumes "0 \<le> freeSpeed"
  shows "\<bar>cmdRotation (conditionInputs freeSpeed th cmd)\<bar> * kSwerveModuleDistanceFromRobotCenter
     \<le> kMaxWheelLinearVelocity freeSpeed"
proof -
  have "\<bar>cmdRotation (conditionInputs freeSpeed th cmd)\<bar> \<le> kMaxRotationAngularVelocity freeSpeed"
    using deadband_abs [of th "clamp (kMaxRotationAngularVelocity freeSpeed) (cmdRotation cmd)"]
      clamp_abs [OF kMaxRotation_nonneg [OF assms], of "cmdRotation cmd"]
    by (simp add: conditionInputs_def)
  then show ?thesis
    using distance_pos by (simp add: kMaxRotationAngularVelocity_def pos_le_divide_eq)
qed

lemma conditioned_zero:
  assumes "0 \<le> freeSpeed"
  shows "cmdSideways cmd = 0 \<Longrightarrow> cmdSideways (conditionInputs freeSpeed th cmd) = 0"
    and "cmdRotation cmd = 0 \<Longrightarrow> cmdRotation (conditionInputs freeSpeed th cmd) = 0"
  using kMax_nonneg [OF assms] kMaxRotation_nonneg [OF assms]
  by (simp_all add: conditionInputs_def kMaxSidewaysLinearVelocity_def clamp_zero deadband_zero)

lemma toModuleStates_cases:
  assumes "t \<in> set (toModuleStates h prev c)"
  shows "speed t = 0
     \<or> (\<exists>m \<in> set moduleMountPoints. t = toModuleState (compensate (robotFrame h c)) m)"
  using assms by (auto simp add: toModuleStates_def Let_def split: if_splits)

lemma compensated_speed_le:
  assumes m: "m \<in> set moduleMountPoints"
  shows "speed (toModuleState (compensate (robotFrame h c)) m)
     \<le> hypot (cmdForward c) (cmdSideways c)
        + (\<bar>cmdRotation c\<bar> + kDriveAngularVelocityCoeff) * kSwerveModuleDistanceFromRobotCenter"
proof -
  let ?c = "compensate (robotFrame h c)"
  have "speed (toModuleState ?c m)
      \<le> hypot (cmdForward ?c) (cmdSideways ?c)
        + \<bar>cmdRotation ?c\<bar> * kSwerveModuleDistanceFromRobotCenter"
    by (rule module_speed_le [OF m])
  moreover have "hypot (cmdForward ?c) (cmdSideways ?c) = hypot (cmdForward c) (cmdSideways c)"
    by (simp add: compensate_translation robotFrame_hypot)
  moreover have "\<bar>cmdRotation ?c\<bar> \<le> \<bar>cmdRotation c\<bar> + kDriveAngularVelocityCoeff"
    using compensate_rotation_abs [of "robotFrame h c"] by (simp add: robotFrame_rotation)
  then have "\<bar>cmdRotation ?c\<bar> * kSwerveModuleDistanceFromRobotCenter
      \<le> (\<bar>cmdRotation c\<bar> + kDriveAngularVelocityCoeff) * kSwerveModuleDistanceFromRobotCenter"
    using distance_pos by (simp add: mult_right_mono)
  ultimately show ?thesis by linarith
qed

lemma kinematic_speed_bound:
  assumes fs: "0 \<le> freeSpeed"
    and t: "t \<in> set (toModuleStates h prev (conditionInputs freeSpeed th cmd))"
  shows "0 \<le> speed t
     \<and> speed t \<le> (sqrt 2 + 1) * kMaxWheelLinearVelocity freeSpeed
          + kDriveAngularVelocityCoeff * kSwerveModuleDistanceFromRobotCenter"
proof -
  let ?K = "kMaxWheelLinearVelocity freeSpeed"
  let ?R = "kSwerveModuleDistanceFromRobotCenter"
  let ?c = "conditionInputs freeSpeed th cmd"
  have K: "0 \<le> ?K" using fs by (rule kMax_nonneg)
  have B: "0 \<le> (sqrt 2 + 1) * ?K + kDriveAngularVelocityCoeff * ?R"
    using K distance_pos by (simp add: kDriveAngularVelocityCoeff_def)
  from toModuleStates_cases [OF t] show ?thesis
  proof
    assume "speed t = 0"
    with B show ?thesis by simp
  next
    assume "\<exists>m \<in> set moduleMountPoints. t = toModuleState (compensate (robotFrame h ?c)) m"
    then obtain m where m: "m \<in> set moduleMountPoints"
      and tm: "t = toModuleState (compensate (robotFrame h ?c)) m" by blast
    have "speed t \<le> hypot (cmdForward ?c) (cmdSideways ?c)
        + (\<bar>cmdRotation ?c\<bar> + kDriveAngularVelocityCoeff) * ?R"
      unfolding tm by (rule compensated_speed_le [OF m])
    moreover have "hypot (cmdForward ?c) (cmdSideways ?c) \<le> sqrt 2 * ?K"
      by (rule hypot_le_sqrt2) (rule conditioned_translation [OF fs])+
    moreover have "\<bar>cmdRotation ?c\<bar> * ?R \<le> ?K"
      by (rule conditioned_rotation [OF fs])
    ultimately have "speed t \<le> (sqrt 2 + 1) * ?K + kDriveAngularVelocityCoeff * ?R"
      by (simp add: algebra_simps)
    moreover have "0 \<le> speed t"
      unfolding tm by (rule toModuleState_speed_nonneg)
    ultimately show ?thesis by simp
  qed
qed

lemma kinematic_speed_bound_forward_only:
  assumes fs: "0 \<le> freeSpeed"
    and s0: "cmdSideways cmd = 0" and w0: "cmdRotation cmd = 0"
    and t: "t \<in> set (toModuleStates h prev (conditionInputs freeSpeed th cmd))"
  shows "0 \<le> speed t \<and> speed t \<le> kMaxWheelLinearVelocity freeSpeed"
proof -
  let ?K = "kMaxWheelLinearVelocity freeSpeed"
  let ?c = "conditionInputs freeSpeed th cmd"
  have K: "0 \<le> ?K" using fs by (rule kMax_nonneg)
  have s: "cmdSideways ?c = 0" and w: "cmdRotation ?c = 0"
    using conditioned_zero [OF fs] s0 w0 by simp_all
  from toModuleStates_cases [OF t] show ?thesis
  proof
    assume "speed t = 0"
    with K show ?thesis by simp
  next
    assume "\<exists>m \<in> set moduleMountPoints. t = toModuleState (compensate (robotFrame h ?c)) m"
    then obtain m where m: "m \<in> set moduleMountPoints"
      and tm: "t = toModuleState (compensate (robotFrame h ?c)) m" by blast
    have c: "compensate (robotFrame h ?c) = robotFrame h ?c"
      by (rule compensate_no_rotation) (simp add: robotFrame_rotation w)
    have "speed t \<le> hypot (cmdForward (robotFrame h ?c)) (cmdSideways (robotFrame h ?c))
        + \<bar>cmdRotation (robotFrame h ?c)\<bar> * kSwerveModuleDistanceFromRobotCenter"
      unfolding tm c by (rule module_speed_le [OF m])
    then have "speed t \<le> \<bar>cmdForward ?c\<bar>"
      by (simp add: robotFrame_hypot robotFrame_rotation w s hypot_zero_right)
    with conditioned_translation(1) [OF fs, of th cmd] have "speed t \<le> ?K" by linarith
    moreover have "0 \<le> speed t"
      unfolding tm by (rule toModuleState_speed_nonneg)
    ultimately show ?thesis by simp
  qed
qed

lemma optimize_speed_abs: "\<bar>speed (optimize c t)\<bar> = \<bar>speed t\<bar>"
  by (simp add: optimize_speed)

lemma drive_cases:
  assumes "t \<in> set (drive freeSpeed th h prev cur cmd)"
  shows "\<exists>c s. s \<in> set (toModuleStates h prev (conditionInputs freeSpeed th cmd))
           \<and> t = optimize c s"
proof -
  from assms obtain c s
    where "(c, s) \<in> set (zip cur (toModuleStates h prev (conditionInputs freeSpeed th cmd)))"
      and "t = optimize c s"
    by (auto simp add: drive_def)
  then show ?thesis
    by (blast dest: set_zip_rightD)
qed

lemma conditionInputs_within:
  assumes "0 \<le> freeSpeed"
    and "threshold \<le> \<bar>f\<bar>" "\<bar>f\<bar> \<le> kMaxWheelLinearVelocity freeSpeed"
    and "s = 0 \<or> (threshold \<le> \<bar>s\<bar> \<and> \<bar>s\<bar> \<le> kMaxWheelLinearVelocity freeSpeed)"
  shows "conditionInputs freeSpeed threshold
           \<lparr>cmdForward = f, cmdSideways = s, cmdRotation = 0, cmdMode = md\<rparr>
         = \<lparr>cmdForward = f, cmdSideways = s, cmdRotation = 0, cmdMode = md\<rparr>"
  using assms kMaxRotation_nonneg [OF assms(1)] kMax_nonneg [OF assms(1)]
  by (auto simp add: conditionInputs_def kMaxForwardLinearVelocity_def
      kMaxSidewaysLinearVelocity_def clamp_def deadband_def)

lemma toModuleStates_translation:
  assumes "kMinWheelLinearVelocity \<le> hypot f s"
  shows "toModuleStates heading previousAngles
           \<lparr>cmdForward = f, cmdSideways = s, cmdRotation = 0, cmdMode = RobotRelative\<rparr>
         = replicate 4 \<lparr>speed = hypot f s, angle = atan2 s f\<rparr>"
proof -
  have "toModuleState \<lparr>cmdForward = f, cmdSideways = s, cmdRotation = 0,
          cmdMode = RobotRelative\<rparr> m = \<lparr>speed = hypot f s, angle = atan2 s f\<rparr>" for m
    by (simp add: toModuleState_def moduleVelocity_def)
  then show ?thesis
    using assms
    by (simp add: toModuleStates_def robotFrame_def compensate_def moduleMountPoints_def
        numeral_eq_Suc)
qed

lemma drive_translation:
  assumes "0 \<le> freeSpeed"
    and "threshold \<le> \<bar>f\<bar>" "\<bar>f\<bar> \<le> kMaxWheelLinearVelocity freeSpeed"
    and "s = 0 \<or> (threshold \<le> \<bar>s\<bar> \<and> \<bar>s\<bar> \<le> kMaxWheelLinearVelocity freeSpeed)"
    and "kMinWheelLinearVelocity \<le> hypot f s"
  shows "drive freeSpeed threshold heading previousAngles [c, c, c, c]
           \<lparr>cmdForward = f, cmdSideways = s, cmdRotation = 0, cmdMode = RobotRelative\<rparr>
         = replicate 4 (optimize c \<lparr>speed = hypot f s, angle = atan2 s f\<rparr>)"
  by (simp add: drive_def conditionInputs_within [OF assms(1-4)]
      toModuleStates_translation [OF assms(5)] numeral_eq_Suc)

lemma drive_backward:
  "drive (200 * pi) 0.1 0 [0, 0, 0, 0] [0, 0, 0, 0]
     \<lparr>cmdForward = - 1, cmdSideways = 0, cmdRotation = 0, cmdMode = RobotRelative\<rparr>
   = replicate 4 \<lparr>speed = - 1, angle = 0\<rparr>"
proof -
  have w: "wrapAngle (2 * pi) = 0"
    using wrapAngle_unique [of 0 1] by simp
  have o: "optimize 0 \<lparr>speed = 1, angle = pi\<rparr> = \<lparr>speed = - 1, angle = 0\<rparr>"
    by (simp add: optimize_def angularDistance_0_pi w)
  have "drive (200 * pi) 0.1 0 [0, 0, 0, 0] [0, 0, 0, 0]
     \<lparr>cmdForward = - 1, cmdSideways = 0, cmdRotation = 0, cmdMode = RobotRelative\<rparr>
   = replicate 4 (optimize 0 \<lparr>speed = hypot (- 1) 0, angle = atan2 0 (- 1)\<rparr>)"
    using kMax_200pi_pos
    by (intro drive_translation) (simp_all add: hypot_def kMinWheelLinearVelocity_def)
  then show ?thesis
    by (simp add: hypot_def atan2_def o)
qed

lemma drive_forward:
  "drive (200 * pi) 0.1 0 [0, 0, 0, 0] [0, 0, 0, 0]
     \<lparr>cmdForward = 1, cmdSideways = 0, cmdRotation = 0, cmdMode = RobotRelative\<rparr>
   = replicate 4 \<lparr>speed = 1, angle = 0\<rparr>"
proof -
  have o: "optimize 0 \<lparr>speed = 1, angle = 0\<rparr> = \<lparr>speed = 1, angle = 0\<rparr>"
    by (simp add: optimize_def angularDistance_0_0)
  have "drive (200 * pi) 0.1 0 [0, 0, 0, 0] [0, 0, 0, 0]
     \<lparr>cmdForward = 1, cmdSideways = 0, cmdRotation = 0, cmdMode = RobotRelative\<rparr>
   = replicate 4 (optimize 0 \<lparr>speed = hypot 1 0, angle = atan2 0 1\<rparr>)"
    using kMax_200pi_pos
    by (intro drive_translation) (simp_all add: hypot_def kMinWheelLinearVelocity_def)
  then show ?thesis
    by (simp add: hypot_def atan2_def o)
qed

lemma drive_diagonal:
  "drive (200 * pi) 0.1 0 [0, 0, 0, 0] [0, 0, 0, 0]
     \<lparr>cmdForward = kMaxForwardLinearVelocity (200 * pi),
      cmdSideways = kMaxSidewaysLinearVelocity (200 * pi),
      cmdRotation = 0, cmdMode = RobotRelative\<rparr>
   = replicate 4 \<lparr>speed = sqrt 2 * kMaxWheelLinearVelocity (200 * pi), angle = pi / 4\<rparr>"
proof -
  let ?M = "kMaxWheelLinearVelocity (200 * pi)"
  have M: "1 < ?M" by (rule kMax_200pi_pos)
  have h: "hypot ?M ?M = sqrt 2 * ?M"
    using M by (simp add: hypot_def real_sqrt_mult flip: mult_2)
  have a: "atan2 ?M ?M = pi / 4"
    using M by (simp add: atan2_def arctan_one)
  have d: "angularDistance 0 (pi / 4) = pi / 4"
    by (simp add: angularDistance_def wrapAngle_id)
  have o: "optimize 0 \<lparr>speed = sqrt 2 * ?M, angle = pi / 4\<rparr>
      = \<lparr>speed = sqrt 2 * ?M, angle = pi / 4\<rparr>"
    by (simp add: optimize_def d)
  have "1 \<le> sqrt 2 * ?M"
    using M real_sqrt_ge_one [of 2] mult_mono [of 1 "sqrt 2" 1 ?M] by simp
  then have big: "kMinWheelLinearVelocity \<le> hypot ?M ?M"
    by (simp add: h kMinWheelLinearVelocity_def)
  have "drive (200 * pi) 0.1 0 [0, 0, 0, 0] [0, 0, 0, 0]
     \<lparr>cmdForward = ?M, cmdSideways = ?M, cmdRotation = 0, cmdMode = RobotRelative\<rparr>
   = replicate 4 (optimize 0 \<lparr>speed = hypot ?M ?M, angle = atan2 ?M ?M\<rparr>)"
    using M big by (intro drive_translation) simp_all
  then show ?thesis
    by (simp only: h a o kMaxForwardLinearVelocity_def kMaxSidewaysLinearVelocity_def)
qed

lemma kinematics_forward:
  "toModuleStates 0 [0, 0, 0, 0] (conditionInputs (200 * pi) 0.1
     \<lparr>cmdForward = 1, cmdSideways = 0, cmdRotation = 0, cmdMode = RobotRelative\<rparr>)
   = replicate 4 \<lparr>speed = 1, angle = 0\<rparr>"
proof -
  have "conditionInputs (200 * pi) 0.1
     \<lparr>cmdForward = 1, cmdSideways = 0, cmdRotation = 0, cmdMode = RobotRelative\<rparr>
     = \<lparr>cmdForward = 1, cmdSideways = 0, cmdRotation = 0, cmdMode = RobotRelative\<rparr>"
    using kMax_200pi_pos by (intro conditionInputs_within) simp_all
  moreover have "toModuleStates 0 [0, 0, 0, 0]
     \<lparr>cmdForward = 1, cmdSideways = 0, cmdRotation = 0, cmdMode = RobotRelative\<rparr>
     = replicate 4 \<lparr>speed = hypot 1 0, angle = atan2 0 1\<rparr>"
    by (intro toModuleStates_translation) (simp add: hypot_def kMinWheelLinearVelocity_def)
  ultimately show ?thesis
    by (simp add: hypot_def atan2_def)
qed

text \<open>
  Claim C7, as stated, fails, here with a motor free speed of \<open>200 * pi\<close> radians / second
  (6000 revolutions per minute). Driving backwards at 1 meter / second with the module at
  angle 0 gives the kinematic target \<open>(1, pi)\<close>, which the optimization turns into the
  speed \<open>- 1\<close>. Commanding the maximum forward and the maximum sideways velocity together
  gives a module speed of \<open>sqrt 2\<close> times \<^const>\<open>kMaxWheelLinearVelocity\<close>. Both
  are stated for the front-left module alone and for the whole drive coordinator, with a
  deadband of 0.1, heading 0 and all modules at angle 0.
\<close>

theorem optimized_speed_outside_range:
  "\<not> (0 \<le> speed (optimize 0 (toModuleState
          \<lparr>cmdForward = - 1, cmdSideways = 0, cmdRotation = 0, cmdMode = RobotRelative\<rparr>
          kFrontLeftWheelPosition))
       \<and> speed (optimize 0 (toModuleState
          \<lparr>cmdForward = - 1, cmdSideways = 0, cmdRotation = 0, cmdMode = RobotRelative\<rparr>
          kFrontLeftWheelPosition)) \<le> kMaxWheelLinearVelocity (200 * pi))
   \<and> \<not> (0 \<le> speed (optimize 0 (toModuleState
          \<lparr>cmdForward = kMaxForwardLinearVelocity (200 * pi),
           cmdSideways = kMaxSidewaysLinearVelocity (200 * pi),
           cmdRotation = 0, cmdMode = RobotRelative\<rparr>
          kFrontLeftWheelPosition))
       \<and> speed (optimize 0 (toModuleState
          \<lparr>cmdForward = kMaxForwardLinearVelocity (200 * pi),
           cmdSideways = kMaxSidewaysLinearVelocity (200 * pi),
           cmdRotation = 0, cmdMode = RobotRelative\<rparr>
          kFrontLeftWheelPosition)) \<le> kMaxWheelLinearVelocity (200 * pi))
   \<and> drive (200 * pi) 0.1 0 [0, 0, 0, 0] [0, 0, 0, 0]
         \<lparr>cmdForward = - 1, cmdSideways = 0, cmdRotation = 0, cmdMode = RobotRelative\<rparr>
       = replicate 4 \<lparr>speed = - 1, angle = 0\<rparr>
   \<and> drive (200 * pi) 0.1 0 [0, 0, 0, 0] [0, 0, 0, 0]
         \<lparr>cmdForward = kMaxForwardLinearVelocity (200 * pi),
          cmdSideways = kMaxSidewaysLinearVelocity (200 * pi),
          cmdRotation = 0, cmdMode = RobotRelative\<rparr>
       = replicate 4 \<lparr>speed = sqrt 2 * kMaxWheelLinearVelocity (200 * pi), angle = pi / 4\<rparr>
   \<and> kMaxWheelLinearVelocity (200 * pi) < sqrt 2 * kMaxWheelLinearVelocity (200 * pi)"
proof -
  have neg: "speed (optimize 0 (toModuleState
          \<lparr>cmdForward = - 1, cmdSideways = 0, cmdRotation = 0, cmdMode = RobotRelative\<rparr>
          kFrontLeftWheelPosition)) = - 1"
    by (simp add: backward_state optimize_speed angularDistance_0_pi)
  define M where "M = kMaxWheelLinearVelocity (200 * pi)"
  have Mpos: "0 < M" using kMax_200pi_pos by (simp add: M_def)
  have s: "speed (toModuleState \<lparr>cmdForward = M, cmdSideways = M, cmdRotation = 0,
              cmdMode = RobotRelative\<rparr> kFrontLeftWheelPosition) = sqrt 2 * M"
    using Mpos by (simp add: diagonal_speed)
  have "1 < sqrt 2" by simp
  then have big: "M < sqrt 2 * M" using Mpos by simp
  have "M < \<bar>speed (optimize 0 (toModuleState \<lparr>cmdForward = M, cmdSideways = M, cmdRotation = 0,
              cmdMode = RobotRelative\<rparr> kFrontLeftWheelPosition))\<bar>"
    using big Mpos by (simp add: optimize_speed s)
  then have over: "\<not> (0 \<le> speed (optimize 0 (toModuleState \<lparr>cmdForward = M, cmdSideways = M,
              cmdRotation = 0, cmdMode = RobotRelative\<rparr> kFrontLeftWheelPosition))
       \<and> speed (optimize 0 (toModuleState \<lparr>cmdForward = M, cmdSideways = M,
              cmdRotation = 0, cmdMode = RobotRelative\<rparr> kFrontLeftWheelPosition)) \<le> M)"
    by linarith
  have first: "\<not> (0 \<le> speed (optimize 0 (toModuleState
          \<lparr>cmdForward = - 1, cmdSideways = 0, cmdRotation = 0, cmdMode = RobotRelative\<rparr>
          kFrontLeftWheelPosition))
       \<and> speed (optimize 0 (toModuleState
          \<lparr>cmdForward = - 1, cmdSideways = 0, cmdRotation = 0, cmdMode = RobotRelative\<rparr>
          kFrontLeftWheelPosition)) \<le> kMaxWheelLinearVelocity (200 * pi))"
    using neg by simp
  have second: "\<not> (0 \<le> speed (optimize 0 (toModuleState
          \<lparr>cmdForward = kMaxForwardLinearVelocity (200 * pi),
           cmdSideways = kMaxSidewaysLinearVelocity (200 * pi),
           cmdRotation = 0, cmdMode = RobotRelative\<rparr>
          kFrontLeftWheelPosition))
       \<and> speed (optimize 0 (toModuleState
          \<lparr>cmdForward = kMaxForwardLinearVelocity (200 * pi),
           cmdSideways = kMaxSidewaysLinearVelocity (200 * pi),
           cmdRotation = 0, cmdMode = RobotRelative\<rparr>
          kFrontLeftWheelPosition)) \<le> kMaxWheelLinearVelocity (200 * pi))"
    using over
    by (simp add: kMaxForwardLinearVelocity_def kMaxSidewaysLinearVelocity_def M_def)
  have third: "kMaxWheelLinearVelocity (200 * pi) < sqrt 2 * kMaxWheelLinearVelocity (200 * pi)"
    using big by (simp add: M_def)
  from first second third drive_backward drive_diagonal show ?thesis
    by (simp only:) simp
qed

text \<open>
  Claim C7, amended. With a motor free speed of at least 0, every target that the
  kinematics produces from the clamped and deadbanded command has a speed between 0 and
  \<open>(sqrt 2 + 1) * kMaxWheelLinearVelocity
    + kDriveAngularVelocityCoeff * kSwerveModuleDistanceFromRobotCenter\<close>,
  and every optimized target that the drive coordinator hands to a module has a speed of at
  most that magnitude. For a command without sideways and rotation component the bound is
  \<^const>\<open>kMaxWheelLinearVelocity\<close> itself. The optimization leaves the speed as it is when
  the angular distance is at most \<open>pi / 2\<close> and negates it otherwise.
\<close>

theorem drive_target_speed_bounds:
  assumes "0 \<le> freeSpeed"
  shows "(\<forall>t \<in> set (toModuleStates heading previousAngles (conditionInputs freeSpeed threshold cmd)).
           0 \<le> speed t
         \<and> speed t \<le> (sqrt 2 + 1) * kMaxWheelLinearVelocity freeSpeed
              + kDriveAngularVelocityCoeff * kSwerveModuleDistanceFromRobotCenter)
   \<and> (\<forall>t \<in> set (drive freeSpeed threshold heading previousAngles currentAngles cmd).
           \<bar>speed t\<bar> \<le> (sqrt 2 + 1) * kMaxWheelLinearVelocity freeSpeed
              + kDriveAngularVelocityCoeff * kSwerveModuleDistanceFromRobotCenter)
   \<and> (cmdSideways cmd = 0 \<and> cmdRotation cmd = 0 \<longrightarrow>
        (\<forall>t \<in> set (toModuleStates heading previousAngles
                      (conditionInputs freeSpeed threshold cmd)).
           0 \<le> speed t \<and> speed t \<le> kMaxWheelLinearVelocity freeSpeed)
      \<and> (\<forall>t \<in> set (drive freeSpeed threshold heading previousAngles currentAngles cmd).
           \<bar>speed t\<bar> \<le> kMaxWheelLinearVelocity freeSpeed))
   \<and> (\<forall>c t. (angularDistance c (angle t) \<le> pi / 2 \<longrightarrow> speed (optimize c t) = speed t)
          \<and> (pi / 2 < angularDistance c (angle t) \<longrightarrow> speed (optimize c t) = - speed t))"
proof (intro conjI ballI impI allI)
  fix t assume "t \<in> set (toModuleStates heading previousAngles (conditionInputs freeSpeed threshold cmd))"
  from kinematic_speed_bound [OF assms this]
  show "0 \<le> speed t"
    and "speed t \<le> (sqrt 2 + 1) * kMaxWheelLinearVelocity freeSpeed
              + kDriveAngularVelocityCoeff * kSwerveModuleDistanceFromRobotCenter"
    by simp_all
next
  fix t assume "t \<in> set (drive freeSpeed threshold heading previousAngles currentAngles cmd)"
  then obtain c s
    where s: "s \<in> set (toModuleStates heading previousAngles (conditionInputs freeSpeed threshold cmd))"
      and t: "t = optimize c s"
    using drive_cases by blast
  from kinematic_speed_bound [OF assms s]
  show "\<bar>speed t\<bar> \<le> (sqrt 2 + 1) * kMaxWheelLinearVelocity freeSpeed
              + kDriveAngularVelocityCoeff * kSwerveModuleDistanceFromRobotCenter"
    by (simp add: t optimize_speed_abs)
next
  fix t assume "cmdSideways cmd = 0 \<and> cmdRotation cmd = 0"
    and "t \<in> set (toModuleStates heading previousAngles (conditionInputs freeSpeed threshold cmd))"
  then have "0 \<le> speed t \<and> speed t \<le> kMaxWheelLinearVelocity freeSpeed"
    using kinematic_speed_bound_forward_only [OF assms] by blast
  then show "0 \<le> speed t" and "speed t \<le> kMaxWheelLinearVelocity freeSpeed"
    by simp_all
next
  fix t assume z: "cmdSideways cmd = 0 \<and> cmdRotation cmd = 0"
    and "t \<in> set (drive freeSpeed threshold heading previousAngles currentAngles cmd)"
  then obtain c s
    where s: "s \<in> set (toModuleStates heading previousAngles (conditionInputs freeSpeed threshold cmd))"
      and t: "t = optimize c s"
    using drive_cases by blast
  from z s have "0 \<le> speed s \<and> speed s \<le> kMaxWheelLinearVelocity freeSpeed"
    using kinematic_speed_bound_forward_only [OF assms] by blast
  then show "\<bar>speed t\<bar> \<le> kMaxWheelLinearVelocity freeSpeed"
    by (simp add: t optimize_speed_abs)
next
  fix c and t :: ModuleState assume "angularDistance c (angle t) \<le> pi / 2"
  then show "speed (optimize c t) = speed t"
    by (simp add: optimize_speed)
next
  fix c and t :: ModuleState assume "pi / 2 < angularDistance c (angle t)"
  then show "speed (optimize c t) = - speed t"
    by (simp add: optimize_speed)
qed

text \<open>
  The theorem for driving forwards at 1 meter / second with a free speed of \<open>200 * pi\<close>
  and a deadband of 0.1, with the modules at angle 0 (not flipped); and the optimization of
  that target for a module at angle \<open>pi\<close> (flipped).
\<close>

theorem drive_target_speed_bounds_witness:
  "(0::real) \<le> 200 * pi
   \<and> \<lparr>speed = 1, angle = 0\<rparr> \<in> set (toModuleStates 0 [0, 0, 0, 0] (conditionInputs (200 * pi) 0.1
        \<lparr>cmdForward = 1, cmdSideways = 0, cmdRotation = 0, cmdMode = RobotRelative\<rparr>))
   \<and> \<lparr>speed = 1, angle = 0\<rparr> \<in> set (drive (200 * pi) 0.1 0 [0, 0, 0, 0] [0, 0, 0, 0]
        \<lparr>cmdForward = 1, cmdSideways = 0, cmdRotation = 0, cmdMode = RobotRelative\<rparr>)
   \<and> cmdSideways \<lparr>cmdForward = 1, cmdSideways = 0, cmdRotation = 0, cmdMode = RobotRelative\<rparr> = 0
   \<and> cmdRotation \<lparr>cmdForward = 1, cmdSideways = 0, cmdRotation = 0, cmdMode = RobotRelative\<rparr> = 0
   \<and> 0 \<le> speed \<lparr>speed = 1, angle = 0\<rparr>
   \<and> speed \<lparr>speed = 1, angle = 0\<rparr> \<le> kMaxWheelLinearVelocity (200 * pi)
   \<and> speed \<lparr>speed = 1, angle = 0\<rparr>
        \<le> (sqrt 2 + 1) * kMaxWheelLinearVelocity (200 * pi)
          + kDriveAngularVelocityCoeff * kSwerveModuleDistanceFromRobotCenter
   \<and> angularDistance 0 (angle \<lparr>speed = 1, angle = 0\<rparr>) \<le> pi / 2
   \<and> speed (optimize 0 \<lparr>speed = 1, angle = 0\<rparr>) = 1
   \<and> pi / 2 < angularDistance pi (angle \<lparr>speed = 1, angle = 0\<rparr>)
   \<and> speed (optimize pi \<lparr>speed = 1, angle = 0\<rparr>) = - 1"
proof -
  let ?cmd = "\<lparr>cmdForward = 1, cmdSideways = 0, cmdRotation = 0, cmdMode = RobotRelative\<rparr>"
  let ?t = "\<lparr>speed = 1, angle = 0\<rparr>"
  have fs: "(0::real) \<le> 200 * pi" by simp
  have k: "?t \<in> set (toModuleStates 0 [0, 0, 0, 0] (conditionInputs (200 * pi) 0.1 ?cmd))"
    by (simp add: kinematics_forward)
  have d: "?t \<in> set (drive (200 * pi) 0.1 0 [0, 0, 0, 0] [0, 0, 0, 0] ?cmd)"
    by (simp add: drive_forward)
  have z: "cmdSideways ?cmd = 0 \<and> cmdRotation ?cmd = 0" by simp
  have a0: "angularDistance 0 (angle ?t) \<le> pi / 2"
    by (simp add: angularDistance_0_0)
  have a1: "pi / 2 < angularDistance pi (angle ?t)"
    by (simp add: angularDistance_pi_0)
  note inst = drive_target_speed_bounds [OF fs, of 0 "[0, 0, 0, 0]" "0.1" ?cmd "[0, 0, 0, 0]"]
  from inst k have b1: "0 \<le> speed ?t
      \<and> speed ?t \<le> (sqrt 2 + 1) * kMaxWheelLinearVelocity (200 * pi)
          + kDriveAngularVelocityCoeff * kSwerveModuleDistanceFromRobotCenter"
    by blast
  from inst z k have b2: "speed ?t \<le> kMaxWheelLinearVelocity (200 * pi)"
    by blast
  from inst a0 have o0: "speed (optimize 0 ?t) = speed ?t"
    by blast
  from inst a1 have o1: "speed (optimize pi ?t) = - speed ?t"
    by blast
  from fs k d z b1 b2 a0 a1 o0 o1 show ?thesis
    by simp
qed

section \<open>Properties of the drive commands\<close>

lemma ArcadeDrive_execute_effect:
  "ArcadeDrive_execute self env r =
     r\<lparr>preferenceReads := preferenceReads r @ [''Robot Relative Sensitivity''],
       driveCalls := driveCalls r @
         [arcadeDriveWithFactors (arcadeForward self env) 0
            (arcadeRotation self env *
               fst (Preferences_getFloat ''Robot Relative Sensitivity'' 0.2 r))
            RobotRelative]\<rparr>"
  by (simp add: ArcadeDrive_execute_def Preferences_getFloat_def
      DriveSubsystem_arcadeDriveWithFactors_def)

lemma FieldRelativeDrive_execute_effect:
  "FieldRelativeDrive_execute self env r =
     r\<lparr>preferenceReads := preferenceReads r @ [''Robot Relative Sensitivity''],
       driveCalls := driveCalls r @
         [arcadeDriveWithFactors (fieldForward self env) (fieldSideways self env)
            (fieldRotation self env *
               fst (Preferences_getFloat ''Robot Relative Sensitivity'' 0.0 r))
            FieldRelative]\<rparr>"
  by (simp add: FieldRelativeDrive_execute_def Preferences_getFloat_def
      DriveSubsystem_arcadeDriveWithFactors_def)

lemma initFloat_absent:
  "preferences r key = None \<Longrightarrow>
     Preferences_initFloat key v r = r\<lparr>preferences := (preferences r)(key \<mapsto> v)\<rparr>"
  by (simp add: Preferences_initFloat_def dom_def)

lemma initFloat_present:
  "preferences r key = Some x \<Longrightarrow> Preferences_initFloat key v r = r"
  by (simp add: Preferences_initFloat_def dom_def)

lemma initFloat_defined: "preferences (Preferences_initFloat key v r) key \<noteq> None"
  by (cases "preferences r key") (simp_all add: initFloat_absent initFloat_present)

lemma initFloat_twice:
  "Preferences_initFloat key v (Preferences_initFloat key u r) = Preferences_initFloat key u r"
proof -
  obtain x where "preferences (Preferences_initFloat key u r) key = Some x"
    using initFloat_defined [of key u r] by blast
  then show ?thesis by (rule initFloat_present)
qed

lemma getFloat_present:
  "preferences r key = Some x \<Longrightarrow> fst (Preferences_getFloat key d r) = x"
  by (simp add: Preferences_getFloat_def)

text \<open>
  Claim C6. Each \<^verbatim>\<open>execute\<close> of ArcadeDrive and of FieldRelativeDrive reads the
  preference \<^verbatim>\<open>Robot Relative Sensitivity\<close> exactly once and stores nothing; the value
  read multiplies the rotation input only, and the forward input (and for
  FieldRelativeDrive the sideways input) reaches the drive subsystem as it is.
\<close>

theorem execute_reads_sensitivity_once:
  "preferenceReads (ArcadeDrive_execute a env r)
     = preferenceReads r @ [''Robot Relative Sensitivity'']
   \<and> driveCalls (ArcadeDrive_execute a env r)
     = driveCalls r @
         [arcadeDriveWithFactors (arcadeForward a env) 0
            (arcadeRotation a env *
               fst (Preferences_getFloat ''Robot Relative Sensitivity'' 0.2 r))
            RobotRelative]
   \<and> preferences (ArcadeDrive_execute a env r) = preferences r
   \<and> preferenceReads (FieldRelativeDrive_execute c env r)
     = preferenceReads r @ [''Robot Relative Sensitivity'']
   \<and> driveCalls (FieldRelativeDrive_execute c env r)
     = driveCalls r @
         [arcadeDriveWithFactors (fieldForward c env) (fieldSideways c env)
            (fieldRotation c env *
               fst (Preferences_getFloat ''Robot Relative Sensitivity'' 0.0 r))
            FieldRelative]
   \<and> preferences (FieldRelativeDrive_execute c env r) = preferences r"
  by (simp add: ArcadeDrive_execute_effect FieldRelativeDrive_execute_effect)

text \<open>
  Claim C9. Whatever the two joystick input functions are, each \<^verbatim>\<open>execute\<close> of
  ArcadeDrive makes exactly one call on the drive subsystem, with sideways component 0 and
  mode RobotRelative; the sideways component is the same for all commands, inputs and robot
  states.
\<close>

theorem arcade_drive_sideways_zero:
  "driveCalls (ArcadeDrive_execute (fst (ArcadeDrive_init forward rotation r0)) env r)
     = driveCalls r @ [last (driveCalls
          (ArcadeDrive_execute (fst (ArcadeDrive_init forward rotation r0)) env r))]
   \<and> callSideways (last (driveCalls
          (ArcadeDrive_execute (fst (ArcadeDrive_init forward rotation r0)) env r))) = 0
   \<and> callMode (last (driveCalls
          (ArcadeDrive_execute (fst (ArcadeDrive_init forward rotation r0)) env r)))
       = RobotRelative
   \<and> callSideways (last (driveCalls (ArcadeDrive_execute a env r)))
       = callSideways (last (driveCalls (ArcadeDrive_execute a' env' r')))"
  by (simp add: ArcadeDrive_execute_effect)

text \<open>
  Claim C10. Both constructors initialize the one key \<^verbatim>\<open>Robot Relative Sensitivity\<close> and no
  other, ArcadeDrive with 0.2 and FieldRelativeDrive with 0.4; after either constructor the
  key is present. When the key is absent, the
  constructor that runs first fixes the stored value and the second changes nothing; when
  the key is present, neither constructor changes anything, and both commands scale their
  rotation input by the stored value.
\<close>

theorem sensitivity_shared_first_default:
  "(preferences r ''Robot Relative Sensitivity'' = None \<longrightarrow>
      preferences (snd (ArcadeDrive_init f w r)) ''Robot Relative Sensitivity'' = Some 0.2
    \<and> preferences (snd (FieldRelativeDrive_init f' s' w' r)) ''Robot Relative Sensitivity''
        = Some 0.4
    \<and> preferences (snd (FieldRelativeDrive_init f' s' w' (snd (ArcadeDrive_init f w r))))
        ''Robot Relative Sensitivity'' = Some 0.2
    \<and> preferences (snd (ArcadeDrive_init f w (snd (FieldRelativeDrive_init f' s' w' r))))
        ''Robot Relative Sensitivity'' = Some 0.4)
   \<and> (preferences r ''Robot Relative Sensitivity'' = Some v \<longrightarrow>
      snd (ArcadeDrive_init f w r) = r
    \<and> snd (FieldRelativeDrive_init f' s' w' r) = r
    \<and> callRotation (last (driveCalls (ArcadeDrive_execute a env r)))
        = arcadeRotation a env * v
    \<and> callRotation (last (driveCalls (FieldRelativeDrive_execute c env r)))
        = fieldRotation c env * v)
   \<and> snd (FieldRelativeDrive_init f' s' w' (snd (ArcadeDrive_init f w r)))
       = snd (ArcadeDrive_init f w r)
   \<and> snd (ArcadeDrive_init f w (snd (FieldRelativeDrive_init f' s' w' r)))
       = snd (FieldRelativeDrive_init f' s' w' r)
   \<and> (\<forall>key. key \<noteq> ''Robot Relative Sensitivity'' \<longrightarrow>
        preferences (snd (ArcadeDrive_init f w r)) key = preferences r key
      \<and> preferences (snd (FieldRelativeDrive_init f' s' w' r)) key = preferences r key)
   \<and> preferences (snd (ArcadeDrive_init f w r)) ''Robot Relative Sensitivity'' \<noteq> None
   \<and> preferences (snd (FieldRelativeDrive_init f' s' w' r)) ''Robot Relative Sensitivity''
       \<noteq> None"
proof -
  have stored:
    "preferences (snd (ArcadeDrive_init f w r)) ''Robot Relative Sensitivity'' \<noteq> None"
    "preferences (snd (FieldRelativeDrive_init f' s' w' r)) ''Robot Relative Sensitivity''
       \<noteq> None"
    by (simp_all add: ArcadeDrive_init_def FieldRelativeDrive_init_def initFloat_defined)
  have absent: "preferences r ''Robot Relative Sensitivity'' = None \<longrightarrow>
      preferences (snd (ArcadeDrive_init f w r)) ''Robot Relative Sensitivity'' = Some 0.2
    \<and> preferences (snd (FieldRelativeDrive_init f' s' w' r)) ''Robot Relative Sensitivity''
        = Some 0.4"
    by (simp add: ArcadeDrive_init_def FieldRelativeDrive_init_def initFloat_absent)
  have twice:
    "snd (FieldRelativeDrive_init f' s' w' (snd (ArcadeDrive_init f w r)))
       = snd (ArcadeDrive_init f w r)"
    "snd (ArcadeDrive_init f w (snd (FieldRelativeDrive_init f' s' w' r)))
       = snd (FieldRelativeDrive_init f' s' w' r)"
    by (simp_all add: ArcadeDrive_init_def FieldRelativeDrive_init_def initFloat_twice)
  have present: "preferences r ''Robot Relative Sensitivity'' = Some v \<longrightarrow>
      snd (ArcadeDrive_init f w r) = r
    \<and> snd (FieldRelativeDrive_init f' s' w' r) = r
    \<and> callRotation (last (driveCalls (ArcadeDrive_execute a env r)))
        = arcadeRotation a env * v
    \<and> callRotation (last (driveCalls (FieldRelativeDrive_execute c env r)))
        = fieldRotation c env * v"
    by (simp add: ArcadeDrive_init_def FieldRelativeDrive_init_def initFloat_present
        ArcadeDrive_execute_effect FieldRelativeDrive_execute_effect getFloat_present)
  have others: "\<forall>key. key \<noteq> ''Robot Relative Sensitivity'' \<longrightarrow>
        preferences (snd (ArcadeDrive_init f w r)) key = preferences r key
      \<and> preferences (snd (FieldRelativeDrive_init f' s' w' r)) key = preferences r key"
    by (simp add: ArcadeDrive_init_def FieldRelativeDrive_init_def Preferences_initFloat_def)
  from absent twice present others stored show ?thesis
    by (simp only:) simp
qed

text \<open>
  The theorem on the robot without preferences, for both orders of construction, and on a
  robot whose stored sensitivity is 0.3.
\<close>

theorem sensitivity_shared_first_default_witness:
  "preferences robot0 ''Robot Relative Sensitivity'' = None
   \<and> preferences (snd (FieldRelativeDrive_init (\<lambda>e::real. e) (\<lambda>e. 0) (\<lambda>e. 1)
        (snd (ArcadeDrive_init (\<lambda>e::real. e) (\<lambda>e. 1) robot0))))
        ''Robot Relative Sensitivity'' = Some 0.2
   \<and> preferences (snd (ArcadeDrive_init (\<lambda>e::real. e) (\<lambda>e. 1)
        (snd (FieldRelativeDrive_init (\<lambda>e::real. e) (\<lambda>e. 0) (\<lambda>e. 1) robot0))))
        ''Robot Relative Sensitivity'' = Some 0.4
   \<and> preferences (robot0\<lparr>preferences := [''Robot Relative Sensitivity'' \<mapsto> 0.3]\<rparr>)
        ''Robot Relative Sensitivity'' = Some 0.3
   \<and> callRotation (last (driveCalls (ArcadeDrive_execute
        \<lparr>arcadeForward = \<lambda>e::real. e, arcadeRotation = \<lambda>e. 1\<rparr> 0.5
        (robot0\<lparr>preferences := [''Robot Relative Sensitivity'' \<mapsto> 0.3]\<rparr>)))) = 0.3
   \<and> callRotation (last (driveCalls (FieldRelativeDrive_execute
        \<lparr>fieldForward = \<lambda>e::real. e, fieldSideways = \<lambda>e. 0, fieldRotation = \<lambda>e. 1\<rparr> 0.5
        (robot0\<lparr>preferences := [''Robot Relative Sensitivity'' \<mapsto> 0.3]\<rparr>)))) = 0.3
   \<and> preferences (snd (ArcadeDrive_init (\<lambda>e::real. e) (\<lambda>e. 1) robot0)) ''other'' = None"
proof -
  have h0: "preferences robot0 ''Robot Relative Sensitivity'' = None"
    by (simp add: robot0_def)
  have h1: "preferences (robot0\<lparr>preferences := [''Robot Relative Sensitivity'' \<mapsto> 0.3]\<rparr>)
        ''Robot Relative Sensitivity'' = Some 0.3"
    by simp
  have h2: "''other'' \<noteq> ''Robot Relative Sensitivity''"
    by simp
  have h3: "preferences robot0 ''other'' = None"
    by (simp add: robot0_def)
  note a = sensitivity_shared_first_default [of robot0 "\<lambda>e::real. e" "\<lambda>e. 1" "\<lambda>e::real. e" "\<lambda>e. 0" "\<lambda>e. 1"]
  note b = sensitivity_shared_first_default [of "robot0\<lparr>preferences := [''Robot Relative Sensitivity'' \<mapsto> 0.3]\<rparr>"
      "\<lambda>e::real. e" "\<lambda>e. 1" "\<lambda>e::real. e" "\<lambda>e. 0" "\<lambda>e. 1" "0.3"
      "\<lparr>arcadeForward = \<lambda>e::real. e, arcadeRotation = \<lambda>e. 1\<rparr>" "0.5"
      "\<lparr>fieldForward = \<lambda>e::real. e, fieldSideways = \<lambda>e. 0, fieldRotation = \<lambda>e. 1\<rparr>"]
  from a h0 h2 h3 have
    "preferences (snd (FieldRelativeDrive_init (\<lambda>e::real. e) (\<lambda>e. 0) (\<lambda>e. 1)
        (snd (ArcadeDrive_init (\<lambda>e::real. e) (\<lambda>e. 1) robot0))))
        ''Robot Relative Sensitivity'' = Some 0.2"
    "preferences (snd (ArcadeDrive_init (\<lambda>e::real. e) (\<lambda>e. 1)
        (snd (FieldRelativeDrive_init (\<lambda>e::real. e) (\<lambda>e. 0) (\<lambda>e. 1) robot0))))
        ''Robot Relative Sensitivity'' = Some 0.4"
    "preferences (snd (ArcadeDrive_init (\<lambda>e::real. e) (\<lambda>e. 1) robot0)) ''other'' = None"
    by metis+
  moreover from b h1 have
    "callRotation (last (driveCalls (ArcadeDrive_execute
        \<lparr>arcadeForward = \<lambda>e::real. e, arcadeRotation = \<lambda>e. 1\<rparr> 0.5
        (robot0\<lparr>preferences := [''Robot Relative Sensitivity'' \<mapsto> 0.3]\<rparr>)))) = 0.3"
    "callRotation (last (driveCalls (FieldRelativeDrive_execute
        \<lparr>fieldForward = \<lambda>e::real. e, fieldSideways = \<lambda>e. 0, fieldRotation = \<lambda>e. 1\<rparr> 0.5
        (robot0\<lparr>preferences := [''Robot Relative Sensitivity'' \<mapsto> 0.3]\<rparr>)))) = 0.3"
    by simp_all
  ultimately show ?thesis
    using h0 h1 by simp
qed

end
